theory Spec2Isabelle
  imports Main "HOL-Library.Word"
begin

unbundle bit_operations_syntax

section \<open>The keyfile settings plugin of NetworkManager (netplan variant)\<close>

text \<open>
  A shallow embedding of the profile writer (\<^verbatim>\<open>nms-keyfile-writer.c\<close>), of the sidecar
  and permission helpers (\<^verbatim>\<open>nms-keyfile-utils.c\<close>) and of the data items of the VPN
  setting (\<^verbatim>\<open>nm-setting-vpn.c\<close>). The file system is an explicit state; every function
  that touches it takes the state and returns the new one. Functions of glib, libc,
  libnetplan and of NetworkManager that the three files only call are fields of the
  record \<open>env\<close> (their results are arbitrary), apart from the few path helpers whose
  documented behaviour is written out below.

  Conventions of the model:
  \<^item> a C string that may be NULL is a \<open>string option\<close>; an out parameter is part of the
    result;
  \<^item> a function that returns FALSE with a \<^verbatim>\<open>GError\<close> returns \<open>Inl\<close> of an error value, one
    constructor for each message of the source;
  \<^item> \<^verbatim>\<open>nm_assert\<close> and \<^verbatim>\<open>nm_assert_not_reached\<close> are empty, as in a release build;
  \<^item> \<^verbatim>\<open>unlink\<close> fails only where there is no file, and a file is written as a whole or
    not at all; a failure of writing, \<^verbatim>\<open>chown\<close>, \<^verbatim>\<open>symlink\<close> or \<^verbatim>\<open>rename\<close> for another
    reason is given by \<open>sys_fault\<close> of the environment;
  \<^item> \<^verbatim>\<open>g_key_file_to_data\<close> always returns a text (glib documents that it never fails), so
    the test of its result in the writer has no branch here;
  \<^item> the umask of the process and the directories above a file are not part of the state.
\<close>

subsection \<open>Files, stat and the system calls\<close>

type_synonym path = string
type_synonym mode_t = "32 word"
type_synonym uid_t = "32 word"

text \<open>\<^verbatim>\<open>struct stat\<close>, the fields the code reads.\<close>

record stat =
  st_mode :: mode_t
  st_uid :: uid_t
  st_gid :: uid_t

text \<open>The file type macros of \<^verbatim>\<open>sys/stat.h\<close>: \<^verbatim>\<open>S_IFMT = 0170000\<close>,
  \<^verbatim>\<open>S_IFREG = 0100000\<close>, \<^verbatim>\<open>S_IFLNK = 0120000\<close>.\<close>

definition S_ISREG :: "mode_t \<Rightarrow> bool" where
  "S_ISREG m = (m AND 0xF000 = 0x8000)"

definition S_ISLNK :: "mode_t \<Rightarrow> bool" where
  "S_ISLNK m = (m AND 0xF000 = 0xA000)"

datatype node_data = Bytes string | Target string | NoData

record node =
  nd_stat :: stat
  nd_data :: node_data

type_synonym fs = "path \<Rightarrow> node option"

definition ENOENT :: int where "ENOENT = 2"

text \<open>The calls whose failure the code handles and the file-system state cannot decide get
  their error number from the environment (\<open>sys_fault\<close> below).\<close>

datatype syscall = SysSetContents | SysChown | SysSymlink | SysRename | SysKeyFileSave

subsection \<open>Key files and connections as the code sees them\<close>

text \<open>A \<^verbatim>\<open>GKeyFile\<close> in memory: the value of a key of a group. Its text form is
  produced and parsed by glib (\<open>g_key_file_to_data\<close>, \<open>g_key_file_load_from_data\<close> of
  the environment).\<close>

type_synonym keyfile = "string \<times> string \<Rightarrow> string option"

definition g_key_file_new :: keyfile where
  "g_key_file_new = (\<lambda>_. None)"

definition g_key_file_get_string :: "keyfile \<Rightarrow> string \<Rightarrow> string \<Rightarrow> string option" where
  "g_key_file_get_string kf grp key = kf (grp, key)"

definition g_key_file_set_string :: "keyfile \<Rightarrow> string \<Rightarrow> string \<Rightarrow> string \<Rightarrow> keyfile" where
  "g_key_file_set_string kf grp key v = kf((grp, key) := Some v)"

definition g_key_file_set_boolean :: "keyfile \<Rightarrow> string \<Rightarrow> string \<Rightarrow> bool \<Rightarrow> keyfile" where
  "g_key_file_set_boolean kf grp key b = kf((grp, key) := Some (if b then ''true'' else ''false''))"

definition g_key_file_remove_key :: "keyfile \<Rightarrow> string \<Rightarrow> string \<Rightarrow> keyfile" where
  "g_key_file_remove_key kf grp key = kf((grp, key) := None)"

text \<open>The certificate properties of an 802.1X setting, as \<^verbatim>\<open>cert_writer\<close> reads them
  through the scheme vtable.\<close>

datatype ck_scheme = SCHEME_UNKNOWN | SCHEME_BLOB string | SCHEME_PATH string | SCHEME_PKCS11 string

datatype ck_format = FORMAT_UNKNOWN | FORMAT_X509 | FORMAT_RAW_KEY | FORMAT_PKCS12

record cert_prop =
  cp_setting_name :: string
  cp_setting_key :: string
  cp_file_suffix :: string
  cp_scheme :: ck_scheme
  cp_format :: "ck_format option"

text \<open>An \<^verbatim>\<open>NMConnection\<close>: the getters the writer calls, the certificate properties
  that reach the write handler, and the key file of every other property.\<close>

record connection =
  conn_id :: string
  conn_uuid :: string
  conn_interface_name :: "string option"
  conn_certs :: "cert_prop list"
  conn_props :: keyfile

datatype write_error =
    ErrPrecondition
  | ErrKeyfileWrite string
  | ErrNoFilename path
  | ErrRereadInvalid
  | ErrWriteFile path int
  | ErrChown path int
  | ErrYamlTranslation
  | ErrNetdefNotFound string
  | ErrGenerate

subsection \<open>The environment: what the three files call and do not define\<close>

record env =
  \<comment> \<open>\<^verbatim>\<open>nm_utils_get_nm_uid()\<close>, \<^verbatim>\<open>nm_utils_get_nm_gid()\<close>\<close>
  nm_uid :: uid_t
  nm_gid :: uid_t
  \<comment> \<open>the effective uid and gid of the process: the owner of a file it creates\<close>
  proc_uid :: uid_t
  proc_gid :: uid_t
  \<comment> \<open>\<^verbatim>\<open>NM_FLAGS_HAS(nm_utils_get_testing(), NM_UTILS_TEST_NO_KEYFILE_OWNER_CHECK)\<close>\<close>
  test_no_keyfile_owner_check :: bool
  nm_uuid_is_normalized :: "string \<Rightarrow> bool"
  \<comment> \<open>\<^verbatim>\<open>nm_utils_file_is_in_path(file, dir)\<close>: the name relative to \<open>dir\<close>, or NULL\<close>
  nm_utils_file_is_in_path :: "path \<Rightarrow> path \<Rightarrow> string option"
  \<comment> \<open>\<^verbatim>\<open>nm_keyfile_utils_create_filename(name, with_extension)\<close>: the escaped file name\<close>
  nm_keyfile_utils_create_filename :: "string \<Rightarrow> bool \<Rightarrow> string"
  \<comment> \<open>whether \<^verbatim>\<open>nm_keyfile_detect_unqualified_path_scheme(dir, data, -1, FALSE, NULL)\<close>
      is not NULL\<close>
  nm_keyfile_detect_unqualified_path_scheme :: "path \<Rightarrow> string \<Rightarrow> bool"
  \<comment> \<open>the error of \<^verbatim>\<open>nm_keyfile_write\<close>, if it refuses the connection\<close>
  nm_keyfile_write_error :: "connection \<Rightarrow> string option"
  g_key_file_to_data :: "keyfile \<Rightarrow> string"
  g_key_file_load_from_data :: "string \<Rightarrow> keyfile option"
  \<comment> \<open>the error number of a call that fails for a reason outside the model\<close>
  sys_fault :: "syscall \<Rightarrow> path \<Rightarrow> int option"
  \<comment> \<open>\<^verbatim>\<open>glob(pattern, GLOB_BRACE, NULL, &gl)\<close> over the names that exist: the return
      code and \<^verbatim>\<open>gl_pathv\<close>\<close>
  glob :: "string \<Rightarrow> path set \<Rightarrow> int \<times> path list"
  GLOB_NOMATCH :: int
  \<comment> \<open>the keyfile reader and the connection methods of the re-read\<close>
  nms_keyfile_reader_from_keyfile :: "keyfile \<Rightarrow> path \<Rightarrow> path \<Rightarrow> connection option"
  nms_keyfile_reader_from_file :: "fs \<Rightarrow> path \<Rightarrow> path \<Rightarrow> connection option"
  nm_connection_normalize :: "connection \<Rightarrow> connection option"
  nm_connection_compare_exact :: "connection \<Rightarrow> connection \<Rightarrow> bool"
  g_uri_escape_string :: "string \<Rightarrow> string"
  \<comment> \<open>libnetplan: the id of a generated file's name (None when the size is not
      positive), the netdef ids of a parsed key file (None when parsing fails), and what
      writing one YAML file and generating do to the file system\<close>
  netplan_get_id_from_nm_filepath :: "path \<Rightarrow> string option \<Rightarrow> string option"
  netplan_parser_load_keyfile :: "fs \<Rightarrow> path \<Rightarrow> string list option"
  netplan_netdef_write_yaml :: "string \<Rightarrow> string option \<Rightarrow> fs \<Rightarrow> fs"
  netplan_generate :: "string option \<Rightarrow> fs \<Rightarrow> bool \<times> fs"

subsection \<open>Path helpers of glib\<close>

definition is_sep :: "char \<Rightarrow> bool" where
  "is_sep c = (c = CHR ''/'')"

definition strip_leading :: "string \<Rightarrow> string" where
  "strip_leading s = dropWhile is_sep s"

definition strip_trailing :: "string \<Rightarrow> string" where
  "strip_trailing s = rev (dropWhile is_sep (rev s))"

text \<open>\<^verbatim>\<open>g_build_filename(a, b, NULL)\<close> as glib documents it: empty elements are ignored,
  the separators at the boundary are replaced by exactly one, the leading separators of
  the first element and the trailing ones of the last element are kept.\<close>

definition g_build_filename :: "string \<Rightarrow> string \<Rightarrow> string" where
  "g_build_filename a b =
     (if a = [] then b
      else if b = [] then a
      else
        let ma = strip_trailing (strip_leading a);
            mb = strip_trailing (strip_leading b)
        in takeWhile is_sep a @ ma @ (if ma = [] \<or> mb = [] then [] else ''/'') @ mb
           @ takeWhile is_sep (rev b))"

definition g_build_path :: "string list \<Rightarrow> string" where
  "g_build_path elems = foldl g_build_filename [] elems"

text \<open>\<^verbatim>\<open>g_path_get_dirname\<close>: the part before the last separator.\<close>

definition g_path_get_dirname :: "path \<Rightarrow> path" where
  "g_path_get_dirname p =
     (if \<not> list_ex is_sep p then ''.''
      else
        let d = strip_trailing (rev (dropWhile (\<lambda>c. \<not> is_sep c) (rev p)))
        in if d = [] then ''/'' else d)"

text \<open>\<^verbatim>\<open>strrchr(s, '/')\<close> and the step past it: the part after the last separator, the
  whole string when there is none.\<close>

definition after_last_slash :: "string \<Rightarrow> string" where
  "after_last_slash s = rev (takeWhile (\<lambda>c. \<not> is_sep c) (rev s))"

fun strstr :: "string \<Rightarrow> string \<Rightarrow> bool" where
  "strstr [] needle = (needle = [])"
| "strstr (c # cs) needle = (take (length needle) (c # cs) = needle \<or> strstr cs needle)"

definition g_str_has_prefix :: "string \<Rightarrow> string \<Rightarrow> bool" where
  "g_str_has_prefix s p = (take (length p) s = p)"

definition g_str_has_suffix :: "string \<Rightarrow> string \<Rightarrow> bool" where
  "g_str_has_suffix s p = (length p \<le> length s \<and> drop (length s - length p) s = p)"

subsection \<open>The system calls on the state\<close>


text \<open>Following symbolic links, at most 40 of them (\<^verbatim>\<open>ELOOP\<close>): a relative target is
  taken from the directory of the link.\<close>

fun follow :: "nat \<Rightarrow> fs \<Rightarrow> path \<Rightarrow> node option" where
  "follow 0 fs p = None"
| "follow (Suc n) fs p =
     (case fs p of
        None \<Rightarrow> None
      | Some nd \<Rightarrow>
          (case nd_data nd of
             Target t \<Rightarrow>
               follow n fs (if g_str_has_prefix t ''/'' then t
                            else g_build_filename (g_path_get_dirname p) t)
           | _ \<Rightarrow> Some nd))"

definition stat :: "fs \<Rightarrow> path \<Rightarrow> stat option" where
  "stat fs p = map_option nd_stat (follow 40 fs p)"

text \<open>\<^verbatim>\<open>g_file_test(p, G_FILE_TEST_EXISTS)\<close> is \<^verbatim>\<open>access(p, F_OK) == 0\<close>.\<close>

definition g_file_test_exists :: "fs \<Rightarrow> path \<Rightarrow> bool" where
  "g_file_test_exists fs p = (follow 40 fs p \<noteq> None)"

definition g_file_test_is_dir :: "fs \<Rightarrow> path \<Rightarrow> bool" where
  "g_file_test_is_dir fs p =
     (case follow 40 fs p of None \<Rightarrow> False | Some nd \<Rightarrow> st_mode (nd_stat nd) AND 0xF000 = 0x4000)"

definition read_file :: "fs \<Rightarrow> path \<Rightarrow> string option" where
  "read_file fs p =
     (case follow 40 fs p of
        None \<Rightarrow> None
      | Some nd \<Rightarrow> (case nd_data nd of Bytes b \<Rightarrow> Some b | _ \<Rightarrow> None))"

text \<open>\<^verbatim>\<open>unlink\<close>: the error number (None on success) and the new state. In this model it
  fails only where there is nothing to remove.\<close>

definition unlink :: "path \<Rightarrow> fs \<Rightarrow> int option \<times> fs" where
  "unlink p fs = (if fs p = None then (Some ENOENT, fs) else (None, fs(p := None)))"

text \<open>\<^verbatim>\<open>nm_utils_file_set_contents(p, data, len, mode, NULL, &errsv, &error)\<close>: a temporary
  file renamed over \<open>p\<close>, so \<open>p\<close> is replaced as a whole or left as it was.\<close>

definition nm_utils_file_set_contents :: "env \<Rightarrow> path \<Rightarrow> string \<Rightarrow> mode_t \<Rightarrow> fs \<Rightarrow> int option \<times> fs" where
  "nm_utils_file_set_contents e p contents mode fs =
     (case sys_fault e SysSetContents p of
        Some err \<Rightarrow> (Some err, fs)
      | None \<Rightarrow>
          (None, fs(p := Some \<lparr>nd_stat = \<lparr>st_mode = 0x8000 OR mode, st_uid = proc_uid e,
                                           st_gid = proc_gid e\<rparr>,
                               nd_data = Bytes contents\<rparr>)))"

definition chown :: "env \<Rightarrow> path \<Rightarrow> uid_t \<Rightarrow> uid_t \<Rightarrow> fs \<Rightarrow> int option \<times> fs" where
  "chown e p uid gid fs =
     (case sys_fault e SysChown p of
        Some err \<Rightarrow> (Some err, fs)
      | None \<Rightarrow>
          (case fs p of
             None \<Rightarrow> (Some ENOENT, fs)
           | Some nd \<Rightarrow> (None, fs(p := Some (nd\<lparr>nd_stat := (nd_stat nd)\<lparr>st_uid := uid, st_gid := gid\<rparr>\<rparr>)))))"



text \<open>\<^verbatim>\<open>g_file_copy(from, to, G_FILE_COPY_OVERWRITE, ...)\<close>, its result ignored by the
  caller: the bytes of \<open>from\<close> in a file at \<open>to\<close>, nothing when \<open>from\<close> cannot be read.\<close>

definition g_file_copy :: "env \<Rightarrow> path \<Rightarrow> path \<Rightarrow> fs \<Rightarrow> fs" where
  "g_file_copy e from to fs =
     (case read_file fs from of
        None \<Rightarrow> fs
      | Some b \<Rightarrow>
          fs(to := Some \<lparr>nd_stat = \<lparr>st_mode = 0x81A4, st_uid = proc_uid e, st_gid = proc_gid e\<rparr>,
                         nd_data = Bytes b\<rparr>))"

text \<open>\<^verbatim>\<open>g_key_file_load_from_file\<close>: the parsed bytes of the file.\<close>

definition g_key_file_load_from_file :: "env \<Rightarrow> fs \<Rightarrow> path \<Rightarrow> keyfile option" where
  "g_key_file_load_from_file e fs p =
     (case read_file fs p of None \<Rightarrow> None | Some b \<Rightarrow> g_key_file_load_from_data e b)"


subsection \<open>nms-keyfile-utils.c: permissions and the sidecar records\<close>

datatype NMSKeyfileFiletype = NMS_KEYFILE_FILETYPE_KEYFILE | NMS_KEYFILE_FILETYPE_NMMETA

text \<open>The errors of the permission check; all are
  \<^verbatim>\<open>NM_SETTINGS_ERROR_INVALID_CONNECTION\<close> in the source, told apart by their message.\<close>

datatype perm_error =
    NotRegularFile
  | NeitherSymlinkNorRegular
  | OwnerInsecure uid_t
  | PermissionsInsecure mode_t
  | CannotAccess int
  | BadFilename

definition nms_keyfile_utils_check_file_permissions_stat ::
    "env \<Rightarrow> NMSKeyfileFiletype \<Rightarrow> stat \<Rightarrow> perm_error + unit" where
  "nms_keyfile_utils_check_file_permissions_stat e filetype st =
     (if filetype = NMS_KEYFILE_FILETYPE_KEYFILE \<and> \<not> S_ISREG (st_mode st) then Inl NotRegularFile
      else if filetype = NMS_KEYFILE_FILETYPE_NMMETA \<and> \<not> S_ISLNK (st_mode st) \<and> \<not> S_ISREG (st_mode st)
      then Inl NeitherSymlinkNorRegular
      else if test_no_keyfile_owner_check e then Inr ()
      else if st_uid st \<noteq> 0 \<and> st_uid st \<noteq> nm_uid e then Inl (OwnerInsecure (st_uid st))
      else if S_ISREG (st_mode st) \<and> st_mode st AND 0x3F \<noteq> 0 then Inl (PermissionsInsecure (st_mode st))
      else Inr ())"


text \<open>\<^verbatim>\<open>NM_KEYFILE_PATH_SUFFIX_NMMETA\<close>, the fixed suffix of a sidecar record (a macro of
  \<^verbatim>\<open>nm-keyfile-internal.h\<close>).\<close>

definition NM_KEYFILE_PATH_SUFFIX_NMMETA :: string where
  "NM_KEYFILE_PATH_SUFFIX_NMMETA = ''.nmmeta''"

text \<open>The result is the returned pointer (the file name after its last separator) and
  \<^verbatim>\<open>*out_uuid_len\<close>; None is NULL.\<close>

definition nms_keyfile_nmmeta_check_filename :: "env \<Rightarrow> string \<Rightarrow> (string \<times> nat) option" where
  "nms_keyfile_nmmeta_check_filename e filename0 =
     (let filename = after_last_slash filename0;
          len = length filename;
          sl = length NM_KEYFILE_PATH_SUFFIX_NMMETA
      in if len \<le> sl \<or> drop (len - sl) filename \<noteq> NM_KEYFILE_PATH_SUFFIX_NMMETA then None
         else if len - sl \<noteq> 36 then None
         else if \<not> nm_uuid_is_normalized e (take 36 filename) then None
         else Some (filename, 36))"





subsection \<open>nms-keyfile-utils.c: the interface-name fixup\<close>

text \<open>The key file of a round of the loop: \<^verbatim>\<open>g_key_file_load_from_file\<close> fills a new key
  file, which stays empty when the file cannot be loaded (the result is not tested).\<close>

definition loaded_keyfile :: "env \<Rightarrow> fs \<Rightarrow> path \<Rightarrow> keyfile" where
  "loaded_keyfile e fs p =
     (case g_key_file_load_from_file e fs p of None \<Rightarrow> g_key_file_new | Some k \<Rightarrow> k)"

text \<open>\<^verbatim>\<open>iface && g_str_has_prefix(iface, "NM-") && strlen(iface) > 15\<close>\<close>

definition autogenerated_name :: "string option \<Rightarrow> bool" where
  "autogenerated_name iface =
     (case iface of None \<Rightarrow> False | Some i \<Rightarrow> g_str_has_prefix i ''NM-'' \<and> length i > 15)"

text \<open>\<^verbatim>\<open>g_key_file_save_to_file\<close> under \<^verbatim>\<open>umask(077)\<close>: a new regular file of mode 0600
  in the place of the old one.\<close>

definition saved_keyfile :: "env \<Rightarrow> keyfile \<Rightarrow> node" where
  "saved_keyfile e kf =
     \<lparr>nd_stat = \<lparr>st_mode = 0x8180, st_uid = proc_uid e, st_gid = proc_gid e\<rparr>,
      nd_data = Bytes (g_key_file_to_data e kf)\<rparr>"

text \<open>The loop over \<^verbatim>\<open>gl_pathv\<close>. The result is the returned boolean and the new state; a
  file that cannot be saved ends the pass.\<close>

fun fix_loop :: "env \<Rightarrow> path list \<Rightarrow> fs \<Rightarrow> bool \<times> fs" where
  "fix_loop e [] fs = (True, fs)"
| "fix_loop e (p # ps) fs =
     (let kf = loaded_keyfile e fs p;
          iface = g_key_file_get_string kf ''connection'' ''interface-name''
      in if autogenerated_name iface then
           (case sys_fault e SysKeyFileSave p of
              Some err \<Rightarrow> (False, fs)
            | None \<Rightarrow>
                fix_loop e ps
                  (fs(p := Some (saved_keyfile e
                                   (g_key_file_remove_key kf ''connection'' ''interface-name'')))))
         else fix_loop e ps fs)"

definition fix_netplan_interface_name :: "env \<Rightarrow> string option \<Rightarrow> fs \<Rightarrow> bool \<times> fs" where
  "fix_netplan_interface_name e rootdir fs =
     (let path = g_build_path [(case rootdir of None \<Rightarrow> ''/'' | Some r \<Rightarrow> r), ''run'',
                               ''NetworkManager'', ''system-connections''];
          rglob = path @ ''/'' @ ''*.nmconnection'';
          (rc, pathv) = glob e rglob (dom fs)
      in if rc \<noteq> 0 \<and> rc \<noteq> GLOB_NOMATCH e then (False, fs)
         else fix_loop e (if rc = 0 then pathv else []) fs)"

text \<open>What the pass needs of glib's text form of key files: a key that was removed before
  the key file was written is not there when the text is parsed again.\<close>

definition removed_key_stays_removed :: "env \<Rightarrow> bool" where
  "removed_key_stays_removed e =
     (\<forall>kf. case g_key_file_load_from_data e
                  (g_key_file_to_data e (g_key_file_remove_key kf ''connection'' ''interface-name'')) of
             None \<Rightarrow> True
           | Some kf' \<Rightarrow> g_key_file_get_string kf' ''connection'' ''interface-name'' = None)"

text \<open>The test of the loop on the file at \<open>p\<close>.\<close>

definition has_autogenerated_name :: "env \<Rightarrow> fs \<Rightarrow> path \<Rightarrow> bool" where
  "has_autogenerated_name e fs p =
     autogenerated_name
       (g_key_file_get_string (loaded_keyfile e fs p) ''connection'' ''interface-name'')"

subsection \<open>nm-setting-vpn.c: the data items\<close>

datatype vpn_prop = PROP_SERVICE_TYPE | PROP_USER_NAME | PROP_PERSISTENT | PROP_DATA
  | PROP_SECRETS | PROP_TIMEOUT

text \<open>\<^verbatim>\<open>NMSettingVpnPrivate\<close>; the hash tables are NULL until the first insertion.
  \<open>notified\<close> lists the property notifications emitted so far, the latest first.\<close>

record NMSettingVpn =
  service_type :: "string option"
  user_name :: "string option"
  data :: "(string \<Rightarrow> string option) option"
  secrets :: "(string \<Rightarrow> string option) option"
  timeout :: "32 word"
  persistent :: bool
  notified :: "vpn_prop list"

definition ensure_strdict :: "(string \<Rightarrow> string option) option \<Rightarrow> (string \<Rightarrow> string option)" where
  "ensure_strdict h = (case h of None \<Rightarrow> (\<lambda>_. None) | Some t \<Rightarrow> t)"

definition nm_g_hash_table_lookup :: "(string \<Rightarrow> string option) option \<Rightarrow> string \<Rightarrow> string option" where
  "nm_g_hash_table_lookup h k = (case h of None \<Rightarrow> None | Some t \<Rightarrow> t k)"

text \<open>A key is a C string or NULL; \<^verbatim>\<open>key && key[0]\<close> is the check of every entry point.\<close>

definition key_ok :: "string option \<Rightarrow> bool" where
  "key_ok key = (case key of None \<Rightarrow> False | Some k \<Rightarrow> k \<noteq> [])"

definition nm_setting_vpn_remove_data_item :: "NMSettingVpn \<Rightarrow> string option \<Rightarrow> bool \<times> NMSettingVpn" where
  "nm_setting_vpn_remove_data_item s key =
     (if \<not> key_ok key then (False, s)
      else
        case data s of
          None \<Rightarrow> (False, s)
        | Some t \<Rightarrow>
            if t (the key) \<noteq> None
            then (True, s\<lparr>data := Some (t((the key) := None)), notified := PROP_DATA # notified s\<rparr>)
            else (False, s))"

definition nm_setting_vpn_add_data_item :: "NMSettingVpn \<Rightarrow> string option \<Rightarrow> string option \<Rightarrow> NMSettingVpn" where
  "nm_setting_vpn_add_data_item s key item =
     (case item of
        None \<Rightarrow> snd (nm_setting_vpn_remove_data_item s key)
      | Some v \<Rightarrow>
          if \<not> key_ok key then s
          else s\<lparr>data := Some ((ensure_strdict (data s))((the key) := Some v)),
                 notified := PROP_DATA # notified s\<rparr>)"

definition nm_setting_vpn_get_data_item :: "NMSettingVpn \<Rightarrow> string option \<Rightarrow> string option" where
  "nm_setting_vpn_get_data_item s key =
     (if \<not> key_ok key then None else nm_g_hash_table_lookup (data s) (the key))"

subsection \<open>nms-keyfile-writer.c: the certificate handler\<close>

text \<open>\<^verbatim>\<open>cert_writer\<close> on the key file being built and the file system. A blob is written
  to \<^verbatim>\<open><keyfile_dir>/<uuid>-<suffix>.<ext>\<close> at once; when that fails the key is left
  out.\<close>

definition cert_writer :: "env \<Rightarrow> connection \<Rightarrow> path \<Rightarrow> cert_prop \<Rightarrow> keyfile \<times> fs \<Rightarrow> keyfile \<times> fs" where
  "cert_writer e connection info_keyfile_dir cp st =
     (case st of (file, fs) \<Rightarrow>
      (case cp_scheme cp of
         SCHEME_PATH path \<Rightarrow>
           let in_dir =
                 (if g_str_has_prefix path info_keyfile_dir
                       \<and> g_str_has_prefix (drop (length info_keyfile_dir) path) ''/''
                  then (let p = strip_leading (drop (length info_keyfile_dir) path)
                        in if p \<noteq> [] \<and> nm_keyfile_detect_unqualified_path_scheme e info_keyfile_dir p
                           then Some p else None)
                  else None);
               accepted_path =
                 (case in_dir of
                    Some p \<Rightarrow> p
                  | None \<Rightarrow>
                      if nm_keyfile_detect_unqualified_path_scheme e info_keyfile_dir path then path
                      else ''file://'' @ path)
           in (g_key_file_set_string file (cp_setting_name cp) (cp_setting_key cp) accepted_path, fs)
       | SCHEME_PKCS11 uri \<Rightarrow>
           (g_key_file_set_string file (cp_setting_name cp) (cp_setting_key cp) uri, fs)
       | SCHEME_BLOB blob \<Rightarrow>
           let ext =
                 (case cp_format cp of
                    Some format \<Rightarrow> if format = FORMAT_PKCS12 then ''p12'' else ''pem''
                  | None \<Rightarrow>
                      if length blob > 2 \<and> blob ! 0 = CHR 0x30 \<and> blob ! 1 = CHR 0x82 then ''der''
                      else ''pem'');
               new_path = info_keyfile_dir @ ''/'' @ conn_uuid connection @ ''-'' @ cp_file_suffix cp
                          @ ''.'' @ ext
           in (case nm_utils_file_set_contents e new_path blob 0x180 fs of
                 (None, fs') \<Rightarrow>
                   (g_key_file_set_string file (cp_setting_name cp) (cp_setting_key cp)
                      (after_last_slash new_path), fs')
               | (Some err, fs') \<Rightarrow> (file, fs'))
       | SCHEME_UNKNOWN \<Rightarrow> (file, fs)))"

datatype NMKeyfileHandlerType = NM_KEYFILE_HANDLER_TYPE_WARN | NM_KEYFILE_HANDLER_TYPE_WRITE_CERT

definition handler_write ::
    "env \<Rightarrow> connection \<Rightarrow> path \<Rightarrow> NMKeyfileHandlerType \<Rightarrow> cert_prop \<Rightarrow> keyfile \<times> fs \<Rightarrow> bool \<times> keyfile \<times> fs" where
  "handler_write e connection info_keyfile_dir type cp st =
     (if type = NM_KEYFILE_HANDLER_TYPE_WRITE_CERT
      then (True, cert_writer e connection info_keyfile_dir cp st)
      else (False, st))"

text \<open>\<^verbatim>\<open>nm_keyfile_write(connection, NM_KEYFILE_HANDLER_FLAGS_NONE, _handler_write, &info,
  error)\<close> of libnm-core, as the writer uses it: it refuses a connection before it writes
  anything, and otherwise calls the handler once for each certificate property, in
  order.\<close>

definition nm_keyfile_write :: "env \<Rightarrow> connection \<Rightarrow> path \<Rightarrow> fs \<Rightarrow> (string + keyfile) \<times> fs" where
  "nm_keyfile_write e connection info_keyfile_dir fs =
     (case nm_keyfile_write_error e connection of
        Some msg \<Rightarrow> (Inl msg, fs)
      | None \<Rightarrow>
          (case foldl (\<lambda>st cp. snd (handler_write e connection info_keyfile_dir
                                        NM_KEYFILE_HANDLER_TYPE_WRITE_CERT cp st))
                  (conn_props connection, fs) (conn_certs connection) of
             (kf, fs') \<Rightarrow> (Inr kf, fs')))"

subsection \<open>nms-keyfile-writer.c: the writer\<close>

text \<open>The arguments of \<^verbatim>\<open>_internal_write_connection\<close>. \<open>want_reread\<close> and
  \<open>want_reread_same\<close> say whether \<^verbatim>\<open>out_reread\<close> and \<^verbatim>\<open>out_reread_same\<close> are given;
  a NULL string is None.\<close>

record write_args =
  connection :: connection
  is_nm_generated :: bool
  is_volatile :: bool
  is_external :: bool
  shadowed_storage :: "string option"
  shadowed_owned :: bool
  keyfile_dir :: path
  profile_dir :: path
  with_extension :: bool
  owner_uid :: uid_t
  owner_grp :: uid_t
  existing_path :: "path option"
  existing_path_read_only :: bool
  force_rename :: bool
  allow_filename_cb :: "(path \<Rightarrow> bool) option"
  want_reread :: bool
  want_reread_same :: bool
  rootdir :: "string option"

record write_out =
  out_path :: path
  out_reread :: "connection option"
  out_reread_same :: bool

text \<open>\<^verbatim>\<open>%d\<close> of a number that is not negative.\<close>

fun decimal :: "nat \<Rightarrow> string" where
  "decimal n = (if n < 10 then [char_of (48 + n)] else decimal (n div 10) @ [char_of (48 + n mod 10)])"

declare decimal.simps [simp del]

definition write_rename :: "env \<Rightarrow> write_args \<Rightarrow> bool" where
  "write_rename e a =
     (force_rename a \<or> existing_path_read_only a
      \<or> (case existing_path a of
            None \<Rightarrow> False
          | Some ep \<Rightarrow> nm_utils_file_is_in_path e ep (keyfile_dir a) = None))"

text \<open>The candidate of round \<open>i_path\<close> of the loop; None where the round is skipped
  before a candidate is built.\<close>

definition path_candidate :: "env \<Rightarrow> write_args \<Rightarrow> bool \<Rightarrow> int \<Rightarrow> path option" where
  "path_candidate e a renaming i_path =
     (if i_path = - 2 then
        (if existing_path a = None \<or> renaming then None else existing_path a)
      else if i_path = - 1 then
        Some (g_build_filename (keyfile_dir a)
                (nm_keyfile_utils_create_filename e (conn_id (connection a)) (with_extension a)))
      else
        Some (keyfile_dir a @ ''/'' @
              nm_keyfile_utils_create_filename e
                (if i_path = 0 then conn_id (connection a) @ ''-'' @ conn_uuid (connection a)
                 else conn_id (connection a) @ ''-'' @ conn_uuid (connection a) @ ''-''
                      @ decimal (nat i_path))
                (with_extension a)))"

text \<open>The three \<^verbatim>\<open>continue\<close> tests on a candidate.\<close>

definition candidate_rejected :: "write_args \<Rightarrow> bool \<Rightarrow> fs \<Rightarrow> path \<Rightarrow> bool" where
  "candidate_rejected a renaming fs path_cand =
     (if existing_path a = Some path_cand \<and> renaming then True
      else if (case allow_filename_cb a of None \<Rightarrow> False | Some cb \<Rightarrow> \<not> cb path_cand) then True
      else if existing_path a \<noteq> Some path_cand then g_file_test_exists fs path_cand
      else False)"

function select_path :: "env \<Rightarrow> write_args \<Rightarrow> bool \<Rightarrow> fs \<Rightarrow> int \<Rightarrow> path option" where
  "select_path e a renaming fs i_path =
     (if i_path < 10000 then
        (case path_candidate e a renaming i_path of
           None \<Rightarrow> select_path e a renaming fs (i_path + 1)
         | Some path_cand \<Rightarrow>
             if candidate_rejected a renaming fs path_cand
             then select_path e a renaming fs (i_path + 1)
             else Some path_cand)
      else None)"
  by pat_completeness auto
termination
  by (relation "measure (\<lambda>(e, a, renaming, fs, i_path). nat (10000 - i_path))") auto

declare select_path.simps [simp del]

text \<open>\<^verbatim>\<open>g_mkdir_with_parents(dir, mode)\<close>, its result ignored by the caller: a directory at
  \<open>dir\<close> where nothing is. The directories above it are not nodes of the model.\<close>

definition g_mkdir_with_parents :: "env \<Rightarrow> path \<Rightarrow> mode_t \<Rightarrow> fs \<Rightarrow> fs" where
  "g_mkdir_with_parents e dir mode fs =
     (if fs dir \<noteq> None then fs
      else fs(dir := Some \<lparr>nd_stat = \<lparr>st_mode = 0x4000 OR mode, st_uid = proc_uid e,
                                      st_gid = proc_gid e\<rparr>,
                          nd_data = NoData\<rparr>))"

text \<open>Lines 224 to 284: the checks of the arguments, the key file with its
  \<^verbatim>\<open>[nmmeta]\<close> keys, its text, and the directory.\<close>

definition write_serialize :: "env \<Rightarrow> write_args \<Rightarrow> fs \<Rightarrow> (write_error + keyfile \<times> string) \<times> fs" where
  "write_serialize e a fs =
     (if \<not> g_str_has_prefix (keyfile_dir a) ''/'' then (Inl ErrPrecondition, fs)
      else
        case nm_keyfile_write e (connection a) (keyfile_dir a) fs of
          (Inl msg, fs1) \<Rightarrow> (Inl (ErrKeyfileWrite msg), fs1)
        | (Inr kf0, fs1) \<Rightarrow>
            let kf1 = (if is_nm_generated a
                       then g_key_file_set_boolean kf0 ''nmmeta'' ''nm-generated'' True else kf0);
                kf2 = (if is_volatile a
                       then g_key_file_set_boolean kf1 ''nmmeta'' ''volatile'' True else kf1);
                kf3 = (if is_external a
                       then g_key_file_set_boolean kf2 ''nmmeta'' ''external'' True else kf2);
                kf4 = (case shadowed_storage a of
                         Some ss \<Rightarrow> g_key_file_set_string kf3 ''nmmeta'' ''shadowed-storage'' ss
                       | None \<Rightarrow> kf3);
                kf_file = (if shadowed_owned a
                           then g_key_file_set_boolean kf4 ''nmmeta'' ''shadowed-owned'' True else kf4);
                kf_content_buf = g_key_file_to_data e kf_file;
                fs2 = (if \<not> g_file_test_is_dir fs1 (keyfile_dir a)
                       then g_mkdir_with_parents e (keyfile_dir a) 0x1ED fs1 else fs1)
            in (Inr (kf_file, kf_content_buf), fs2))"

text \<open>The re-read of the key file in memory (lines 349 to 385) and of the generated file
  (lines 534 to 563): the connection read back and whether it equals the one written.
  \<^verbatim>\<open>nm_assert_not_reached()\<close> is empty in a release build.\<close>

definition check_reread :: "env \<Rightarrow> write_args \<Rightarrow> connection option \<Rightarrow> write_error + connection option \<times> bool" where
  "check_reread e a reread0 =
     (case reread0 of
        None \<Rightarrow> Inl ErrRereadInvalid
      | Some r0 \<Rightarrow>
          (case nm_connection_normalize e r0 of
             None \<Rightarrow> Inl ErrRereadInvalid
           | Some reread \<Rightarrow>
               Inr (Some reread,
                    if want_reread_same a then nm_connection_compare_exact e reread (connection a)
                    else False)))"

text \<open>Lines 286 to 385: the file name and the first re-read.\<close>

definition write_prepare ::
    "env \<Rightarrow> write_args \<Rightarrow> fs \<Rightarrow> (write_error + keyfile \<times> string \<times> path \<times> connection option \<times> bool) \<times> fs" where
  "write_prepare e a fs =
     (case write_serialize e a fs of
        (Inl err, fs2) \<Rightarrow> (Inl err, fs2)
      | (Inr (kf_file, kf_content_buf), fs2) \<Rightarrow>
          (case select_path e a (write_rename e a) fs2 (- 2) of
             None \<Rightarrow>
               (Inl (ErrNoFilename
                      (g_build_filename (keyfile_dir a)
                         (nm_keyfile_utils_create_filename e (conn_id (connection a)) (with_extension a)))),
                fs2)
           | Some path \<Rightarrow>
               if want_reread a \<or> want_reread_same a then
                 (case check_reread e a
                         (nms_keyfile_reader_from_keyfile e kf_file path (profile_dir a)) of
                    Inl err \<Rightarrow> (Inl err, fs2)
                  | Inr (reread, reread_same) \<Rightarrow>
                      (Inr (kf_file, kf_content_buf, path, reread, reread_same), fs2))
               else (Inr (kf_file, kf_content_buf, path, None, False), fs2)))"

text \<open>Lines 387 to 415: the file, its owner, and the removal of the file the profile had
  before.\<close>

definition write_keyfile ::
    "env \<Rightarrow> write_args \<Rightarrow> fs \<Rightarrow> (write_error + keyfile \<times> path \<times> connection option \<times> bool) \<times> fs" where
  "write_keyfile e a fs =
     (case write_prepare e a fs of
        (Inl err, fs2) \<Rightarrow> (Inl err, fs2)
      | (Inr (kf_file, kf_content_buf, path, reread, reread_same), fs2) \<Rightarrow>
          (case nm_utils_file_set_contents e path kf_content_buf 0x180 fs2 of
             (Some err, fs3) \<Rightarrow> (Inl (ErrWriteFile path err), fs3)
           | (None, fs3) \<Rightarrow>
               (case chown e path (owner_uid a) (owner_grp a) fs3 of
                  (Some errsv, fs4) \<Rightarrow> (Inl (ErrChown path errsv), snd (unlink path fs4))
                | (None, fs4) \<Rightarrow>
                    (Inr (kf_file, path, reread, reread_same),
                     (case existing_path a of
                        None \<Rightarrow> fs4
                      | Some ep \<Rightarrow>
                          if \<not> existing_path_read_only a \<and> path \<noteq> ep then snd (unlink ep fs4)
                          else fs4)))))"

text \<open>Lines 417 to 564: the projection into netplan of a profile that is not volatile, in
  four parts.\<close>

text \<open>Lines 419 to 451: the netplan id, the interface name to fall back on, the key file
  that libnetplan is to read, and the state after the new key file was copied over the
  generated file the profile came from.\<close>

definition netplan_source ::
    "env \<Rightarrow> write_args \<Rightarrow> keyfile \<Rightarrow> path \<Rightarrow> fs \<Rightarrow> (string \<times> string option \<times> path) \<times> fs" where
  "netplan_source e a kf_file path fs =
     (let ssid = g_key_file_get_string kf_file ''wifi'' ''ssid'';
          netplan_id0 =
            (case existing_path a of
               None \<Rightarrow> None
             | Some ep \<Rightarrow>
                 if strstr ep ''system-connections/netplan-''
                 then netplan_get_id_from_nm_filepath e ep ssid else None)
      in case netplan_id0 of
           Some i \<Rightarrow>
             (case existing_path a of
                Some ep \<Rightarrow> ((i, None, ep), g_file_copy e path ep fs)
              | None \<Rightarrow> ((i, None, path), fs))
         | None \<Rightarrow>
             ((''NM-'' @ conn_uuid (connection a), conn_interface_name (connection a), path), fs))"

text \<open>Lines 465 to 474: the netdef of the id, or else of the interface name. \<open>netdefs\<close> are
  the ids of the netplan state built from the key file; a lookup of a NULL id finds
  nothing.\<close>

definition netplan_lookup :: "string list \<Rightarrow> string \<Rightarrow> string option \<Rightarrow> string option" where
  "netplan_lookup netdefs netplan_id ifname =
     (if netplan_id \<in> set netdefs then Some netplan_id
      else (case ifname of
              None \<Rightarrow> None
            | Some n \<Rightarrow> if n \<in> set netdefs then Some n else None))"

text \<open>Lines 507 to 563: the path that is returned and the second re-read.\<close>

definition netplan_result ::
    "env \<Rightarrow> write_args \<Rightarrow> keyfile \<Rightarrow> string \<Rightarrow> fs \<Rightarrow> (write_error + write_out) \<times> fs" where
  "netplan_result e a kf_file actual_netplan_id fs6 =
     (let escaped_ssid = map_option (g_uri_escape_string e)
                           (g_key_file_get_string kf_file ''wifi'' ''ssid'');
          root = (case rootdir a of None \<Rightarrow> [] | Some r \<Rightarrow> r);
          tail = (case escaped_ssid of None \<Rightarrow> [] | Some s \<Rightarrow> ''-'' @ s) @ ''.nmconnection'';
          path1 = root @ ''/run/NetworkManager/system-connections/netplan-NM-''
                  @ conn_uuid (connection a) @ tail;
          path2 = root @ ''/run/NetworkManager/system-connections/netplan-''
                  @ actual_netplan_id @ tail;
          new_path =
            (case existing_path a of
               Some ep \<Rightarrow> ep
             | None \<Rightarrow> if g_file_test_exists fs6 path1 then path1 else path2)
      in if want_reread a \<or> want_reread_same a then
           (case check_reread e a (nms_keyfile_reader_from_file e fs6 new_path (profile_dir a)) of
              Inl err \<Rightarrow> (Inl err, fs6)
            | Inr (reread, reread_same) \<Rightarrow>
                (Inr \<lparr>out_path = new_path,
                      out_reread = (if want_reread a then reread else None),
                      out_reread_same = reread_same\<rparr>, fs6))
         else (Inr \<lparr>out_path = new_path, out_reread = None, out_reread_same = False\<rparr>, fs6))"

text \<open>Lines 476 to 506, once the netdef is found: the YAML file (its error is not tested),
  the removal of the legacy file and of the key file just written, the generation, and
  the interface-name fixup.\<close>

definition netplan_commit ::
    "env \<Rightarrow> write_args \<Rightarrow> keyfile \<Rightarrow> path \<Rightarrow> string \<Rightarrow> fs \<Rightarrow> (write_error + write_out) \<times> fs" where
  "netplan_commit e a kf_file path actual_netplan_id fs1 =
     (let fs2 = netplan_netdef_write_yaml e actual_netplan_id (rootdir a) fs1;
          legacy_path = ''/etc/netplan/NM-'' @ conn_uuid (connection a) @ ''.yaml'';
          fs3 = (if g_file_test_exists fs2 legacy_path then snd (unlink legacy_path fs2) else fs2);
          fs4 = snd (unlink path fs3)
      in case netplan_generate e (rootdir a) fs4 of
           (False, fs5) \<Rightarrow> (Inl ErrGenerate, fs5)
         | (True, fs5) \<Rightarrow>
             netplan_result e a kf_file actual_netplan_id
               (snd (fix_netplan_interface_name e (rootdir a) fs5)))"

definition netplan_write ::
    "env \<Rightarrow> write_args \<Rightarrow> keyfile \<Rightarrow> path \<Rightarrow> fs \<Rightarrow> (write_error + write_out) \<times> fs" where
  "netplan_write e a kf_file path fs =
     (case netplan_source e a kf_file path fs of
        ((netplan_id, ifname, kf_path), fs1) \<Rightarrow>
          (case netplan_parser_load_keyfile e fs1 kf_path of
             None \<Rightarrow> (Inl ErrYamlTranslation, fs1)
           | Some netdefs \<Rightarrow>
               (case netplan_lookup netdefs netplan_id ifname of
                  None \<Rightarrow> (Inl (ErrNetdefNotFound netplan_id), fs1)
                | Some actual_netplan_id \<Rightarrow>
                    netplan_commit e a kf_file path actual_netplan_id fs1)))"

text \<open>\<^verbatim>\<open>_internal_write_connection\<close>: the result is the error or the three out
  parameters, and the new state.\<close>

definition internal_write_connection :: "env \<Rightarrow> write_args \<Rightarrow> fs \<Rightarrow> (write_error + write_out) \<times> fs" where
  "internal_write_connection e a fs =
     (case write_keyfile e a fs of
        (Inl err, fs5) \<Rightarrow> (Inl err, fs5)
      | (Inr (kf_file, path, reread, reread_same), fs5) \<Rightarrow>
          if \<not> is_volatile a then netplan_write e a kf_file path fs5
          else (Inr \<lparr>out_path = path,
                     out_reread = (if want_reread a then reread else None),
                     out_reread_same = reread_same\<rparr>, fs5))"

definition nms_keyfile_writer_connection ::
    "env \<Rightarrow> connection \<Rightarrow> bool \<Rightarrow> bool \<Rightarrow> bool \<Rightarrow> string option \<Rightarrow> bool \<Rightarrow> path \<Rightarrow> path
       \<Rightarrow> path option \<Rightarrow> bool \<Rightarrow> bool \<Rightarrow> (path \<Rightarrow> bool) option \<Rightarrow> bool \<Rightarrow> bool \<Rightarrow> fs
       \<Rightarrow> (write_error + write_out) \<times> fs" where
  "nms_keyfile_writer_connection e conn generated volatile external shadowed owned dir pdir
       existing read_only force cb reread same fs =
     internal_write_connection e
       \<lparr>connection = conn, is_nm_generated = generated, is_volatile = volatile,
        is_external = external, shadowed_storage = shadowed, shadowed_owned = owned,
        keyfile_dir = dir, profile_dir = pdir, with_extension = True,
        owner_uid = nm_uid e, owner_grp = nm_gid e, existing_path = existing,
        existing_path_read_only = read_only, force_rename = force, allow_filename_cb = cb,
        want_reread = reread, want_reread_same = same, rootdir = None\<rparr> fs"

definition nms_keyfile_writer_test_connection ::
    "env \<Rightarrow> connection \<Rightarrow> path \<Rightarrow> uid_t \<Rightarrow> uid_t \<Rightarrow> bool \<Rightarrow> bool \<Rightarrow> fs \<Rightarrow> (write_error + write_out) \<times> fs" where
  "nms_keyfile_writer_test_connection e conn dir uid grp reread same fs =
     internal_write_connection e
       \<lparr>connection = conn, is_nm_generated = False, is_volatile = False,
        is_external = False, shadowed_storage = None, shadowed_owned = False,
        keyfile_dir = dir, profile_dir = dir, with_extension = False,
        owner_uid = uid, owner_grp = grp, existing_path = None,
        existing_path_read_only = False, force_rename = False, allow_filename_cb = None,
        want_reread = reread, want_reread_same = same,
        rootdir = Some (if g_str_has_suffix dir ''/run/NetworkManager/system-connections''
                        then take (length dir - 38) dir else dir)\<rparr> fs"


subsection \<open>The file name allocator as the specification words it\<close>

text \<open>The candidates in their fixed order: the existing path when it is given and no
  rename applies, then \<^verbatim>\<open>dir/escape(id)\<close>, then \<^verbatim>\<open>dir/escape(id-uuid)\<close>, then
  \<^verbatim>\<open>dir/escape(id-uuid-N)\<close> for N from 1 to 9999.\<close>

definition spec_candidates :: "env \<Rightarrow> write_args \<Rightarrow> path list" where
  "spec_candidates e a =
     (case existing_path a of
        None \<Rightarrow> []
      | Some ep \<Rightarrow> if write_rename e a then [] else [ep])
     @ [g_build_filename (keyfile_dir a)
          (nm_keyfile_utils_create_filename e (conn_id (connection a)) (with_extension a))]
     @ [keyfile_dir a @ ''/'' @
          nm_keyfile_utils_create_filename e
            (conn_id (connection a) @ ''-'' @ conn_uuid (connection a)) (with_extension a)]
     @ map (\<lambda>n. keyfile_dir a @ ''/'' @
                   nm_keyfile_utils_create_filename e
                     (conn_id (connection a) @ ''-'' @ conn_uuid (connection a) @ ''-''
                      @ decimal (nat n))
                     (with_extension a))
         [1..9999]"

text \<open>A candidate is rejected if it equals the existing path while a rename is forced, or
  if the accept callback (when supplied) returns false, or if, when it is not exactly the
  existing path, a file already exists at it.\<close>

definition spec_rejected :: "env \<Rightarrow> write_args \<Rightarrow> fs \<Rightarrow> path \<Rightarrow> bool" where
  "spec_rejected e a fs c =
     ((existing_path a = Some c \<and> write_rename e a)
      \<or> (case allow_filename_cb a of None \<Rightarrow> False | Some cb \<Rightarrow> \<not> cb c)
      \<or> (existing_path a \<noteq> Some c \<and> g_file_test_exists fs c))"

definition spec_allocate :: "env \<Rightarrow> write_args \<Rightarrow> fs \<Rightarrow> path option" where
  "spec_allocate e a fs = find (\<lambda>c. \<not> spec_rejected e a fs c) (spec_candidates e a)"


text \<open>A path that holds a file with content (not a link, not a directory).\<close>

definition is_file :: "fs \<Rightarrow> path \<Rightarrow> bool" where
  "is_file fs p =
     (case fs p of
        None \<Rightarrow> False
      | Some nd \<Rightarrow> (case nd_data nd of Bytes b \<Rightarrow> True | _ \<Rightarrow> False))"

subsection \<open>An environment and inputs for the examples\<close>

text \<open>A uuid in its normalized form: 36 characters, lower-case hexadecimal digits in
  groups of 8, 4, 4, 4 and 12 with dashes between.\<close>

definition is_lower_hex :: "char \<Rightarrow> bool" where
  "is_lower_hex c = (c \<in> set ''0123456789abcdef'')"

definition example_uuid_is_normalized :: "string \<Rightarrow> bool" where
  "example_uuid_is_normalized s =
     (length s = 36
      \<and> list_all is_lower_hex (take 8 s) \<and> s ! 8 = CHR ''-''
      \<and> list_all is_lower_hex (take 4 (drop 9 s)) \<and> s ! 13 = CHR ''-''
      \<and> list_all is_lower_hex (take 4 (drop 14 s)) \<and> s ! 18 = CHR ''-''
      \<and> list_all is_lower_hex (take 4 (drop 19 s)) \<and> s ! 23 = CHR ''-''
      \<and> list_all is_lower_hex (drop 24 s))"

text \<open>A text form of key files that keeps the interface name and nothing else.\<close>

definition example_to_data :: "keyfile \<Rightarrow> string" where
  "example_to_data kf = (case kf (''connection'', ''interface-name'') of None \<Rightarrow> [] | Some v \<Rightarrow> v)"

definition example_load_from_data :: "string \<Rightarrow> keyfile option" where
  "example_load_from_data s =
     Some (if s = [] then g_key_file_new
           else g_key_file_set_string g_key_file_new ''connection'' ''interface-name'' s)"

definition example_run_file :: path where
  "example_run_file = ''/run/NetworkManager/system-connections/netplan-br0.nmconnection''"

definition example_file :: "string \<Rightarrow> node" where
  "example_file b = \<lparr>nd_stat = \<lparr>st_mode = 0x8180, st_uid = 0, st_gid = 0\<rparr>, nd_data = Bytes b\<rparr>"

text \<open>Root runs the daemon, no call fails, and netplan knows one definition, \<open>br0\<close>,
  whose generated profile is \<open>example_run_file\<close>.\<close>

definition example_env :: env where
  "example_env =
     \<lparr>nm_uid = 0, nm_gid = 0, proc_uid = 0, proc_gid = 0,
      test_no_keyfile_owner_check = False,
      nm_uuid_is_normalized = example_uuid_is_normalized,
      nm_utils_file_is_in_path =
        (\<lambda>file dir. if g_str_has_prefix file (dir @ ''/'') \<and> strip_leading (drop (length dir) file) \<noteq> []
                     then Some (strip_leading (drop (length dir) file)) else None),
      nm_keyfile_utils_create_filename =
        (\<lambda>name ext. map (\<lambda>c. if c = CHR ''/'' then CHR ''*'' else c) name
                     @ (if ext then ''.nmconnection'' else [])),
      nm_keyfile_detect_unqualified_path_scheme = (\<lambda>dir data. True),
      nm_keyfile_write_error = (\<lambda>c. None),
      g_key_file_to_data = example_to_data,
      g_key_file_load_from_data = example_load_from_data,
      sys_fault = (\<lambda>c p. None),
      glob = (\<lambda>pattern names. (0, [example_run_file])),
      GLOB_NOMATCH = 3,
      nms_keyfile_reader_from_keyfile = (\<lambda>kf p d. None),
      nms_keyfile_reader_from_file = (\<lambda>fs p d. None),
      nm_connection_normalize = (\<lambda>c. Some c),
      nm_connection_compare_exact = (\<lambda>c d. conn_uuid c = conn_uuid d),
      g_uri_escape_string = (\<lambda>s. s),
      netplan_get_id_from_nm_filepath = (\<lambda>p ssid. None),
      netplan_parser_load_keyfile = (\<lambda>fs p. if read_file fs p = None then None else Some [''br0'']),
      netplan_netdef_write_yaml = (\<lambda>netdef root fs. fs),
      netplan_generate = (\<lambda>root fs. (True, fs(example_run_file := Some (example_file ''br0''))))\<rparr>"

definition example_uuid :: string where
  "example_uuid = ''0a1b2c3d-0000-4000-8000-00000000000a''"

definition example_uuid2 :: string where
  "example_uuid2 = ''0a1b2c3d-0000-4000-8000-00000000000b''"

definition example_connection :: "string \<Rightarrow> connection" where
  "example_connection uuid =
     \<lparr>conn_id = ''office'', conn_uuid = uuid, conn_interface_name = Some ''br0'',
      conn_certs = [], conn_props = g_key_file_new\<rparr>"

definition example_args :: "string \<Rightarrow> bool \<Rightarrow> write_args" where
  "example_args uuid volatile =
     \<lparr>connection = example_connection uuid, is_nm_generated = False, is_volatile = volatile,
      is_external = False, shadowed_storage = None, shadowed_owned = False,
      keyfile_dir = ''/etc/NetworkManager/system-connections'',
      profile_dir = ''/etc/NetworkManager/system-connections'', with_extension = True,
      owner_uid = 0, owner_grp = 0, existing_path = None,
      existing_path_read_only = False, force_rename = False, allow_filename_cb = None,
      want_reread = False, want_reread_same = False, rootdir = None\<rparr>"

definition example_vpn :: NMSettingVpn where
  "example_vpn =
     \<lparr>service_type = Some ''org.freedesktop.NetworkManager.openvpn'', user_name = None,
      data = Some ((\<lambda>k. None)(''remote'' := Some ''vpn.example.org'')), secrets = None,
      timeout = 0, persistent = False, notified = []\<rparr>"

definition example_dir :: path where
  "example_dir = ''/etc/NetworkManager/system-connections''"


definition example_user_stat :: stat where
  "example_user_stat = \<lparr>st_mode = 0x8180, st_uid = 1000, st_gid = 1000\<rparr>"

definition example_run_fs :: fs where
  "example_run_fs =
     (\<lambda>p. None)(example_run_file := Some (example_file ''NM-0a1b2c3d-0000-4000-8000-00000000000a''))"




text \<open>A caller that accepts no file name.\<close>

definition example_refuse_args :: write_args where
  "example_refuse_args = (example_args example_uuid True)\<lparr>allow_filename_cb := Some (\<lambda>p. False)\<rparr>"

text \<open>An environment in which \<^verbatim>\<open>chown\<close> fails with \<^verbatim>\<open>EPERM\<close>.\<close>

definition example_chown_env :: env where
  "example_chown_env = example_env\<lparr>sys_fault := (\<lambda>c p. if c = SysChown then Some 1 else None)\<rparr>"

definition example_dir_node :: node where
  "example_dir_node = \<lparr>nd_stat = \<lparr>st_mode = 0x41ED, st_uid = 0, st_gid = 0\<rparr>, nd_data = NoData\<rparr>"

definition example_new_path :: path where
  "example_new_path = ''/etc/NetworkManager/system-connections/office.nmconnection''"

text \<open>An environment in which libnetplan cannot parse the key file.\<close>

definition example_untranslatable_env :: env where
  "example_untranslatable_env = example_env\<lparr>netplan_parser_load_keyfile := (\<lambda>fs p. None)\<rparr>"

definition example_new_path2 :: path where
  "example_new_path2 =
     ''/etc/NetworkManager/system-connections/office-0a1b2c3d-0000-4000-8000-00000000000b.nmconnection''"

section \<open>Properties\<close>

subsection \<open>Path helpers\<close>







lemma example_uuid_normalized: "example_uuid_is_normalized example_uuid"
  by (simp add: example_uuid_is_normalized_def example_uuid_def is_lower_hex_def)

subsection \<open>The permission check\<close>

text \<open>
  Claim C5. Unless the test override is active, \<^verbatim>\<open>nms_keyfile_utils_check_file_permissions_stat\<close>
  accepts a file exactly when its type is right for its kind (a key file is a regular
  file, a sidecar record a regular file or a symbolic link), its owner is root or the
  service uid, and, if it is a regular file, no group or other permission bit is set. A
  regular key file of any other owner is refused with the "owner is insecure" error,
  whatever it holds: the check never reads the content.
\<close>

theorem check_file_permissions_stat_secure:
  assumes "\<not> test_no_keyfile_owner_check e"
  shows "(nms_keyfile_utils_check_file_permissions_stat e ft st = Inr () \<longleftrightarrow>
            (case ft of
               NMS_KEYFILE_FILETYPE_KEYFILE \<Rightarrow> S_ISREG (st_mode st)
             | NMS_KEYFILE_FILETYPE_NMMETA \<Rightarrow> S_ISLNK (st_mode st) \<or> S_ISREG (st_mode st))
            \<and> (st_uid st = 0 \<or> st_uid st = nm_uid e)
            \<and> (S_ISREG (st_mode st) \<longrightarrow> st_mode st AND 0x3F = 0))
       \<and> (S_ISREG (st_mode st) \<and> st_uid st \<noteq> 0 \<and> st_uid st \<noteq> nm_uid e \<longrightarrow>
            nms_keyfile_utils_check_file_permissions_stat e ft st = Inl (OwnerInsecure (st_uid st)))"
  using assms
  by (cases ft) (simp_all add: nms_keyfile_utils_check_file_permissions_stat_def)

theorem check_file_permissions_stat_secure_witness:
  "\<not> test_no_keyfile_owner_check example_env
   \<and> nms_keyfile_utils_check_file_permissions_stat example_env NMS_KEYFILE_FILETYPE_KEYFILE
       example_user_stat = Inl (OwnerInsecure 1000)"
proof -
  have h: "\<not> test_no_keyfile_owner_check example_env"
    by (simp add: example_env_def)
  have r: "S_ISREG (st_mode example_user_stat)" "st_uid example_user_stat \<noteq> 0"
    "st_uid example_user_stat \<noteq> nm_uid example_env" "st_uid example_user_stat = 1000"
    by (simp_all add: example_user_stat_def example_env_def S_ISREG_def)
  from check_file_permissions_stat_secure[OF h, of NMS_KEYFILE_FILETYPE_KEYFILE example_user_stat] r h
  show ?thesis by simp
qed

subsection \<open>The names of sidecar records\<close>

text \<open>
  Claim C8, as the code has it. \<^verbatim>\<open>nms_keyfile_nmmeta_check_filename\<close> accepts exactly the
  names whose part after the last separator is a normalized uuid of 36 characters
  followed by the suffix, and returns that part with the length 36. A name with a
  trailing \<^verbatim>\<open>~\<close> is refused like every other name: the temporary marker is not read.
\<close>

theorem nmmeta_check_filename_shape:
  "(nms_keyfile_nmmeta_check_filename e fn = Some r \<longleftrightarrow>
      (\<exists>u. after_last_slash fn = u @ NM_KEYFILE_PATH_SUFFIX_NMMETA \<and> length u = 36
           \<and> nm_uuid_is_normalized e u \<and> r = (after_last_slash fn, 36)))
   \<and> nms_keyfile_nmmeta_check_filename e (fn @ ''~'') = None"
proof -
  define b where "b = after_last_slash fn"
  define sl where "sl = length NM_KEYFILE_PATH_SUFFIX_NMMETA"
  have dec: "(\<exists>u. b = u @ NM_KEYFILE_PATH_SUFFIX_NMMETA \<and> length u = 36 \<and> nm_uuid_is_normalized e u)
     \<longleftrightarrow> (\<not> (length b \<le> sl \<or> drop (length b - sl) b \<noteq> NM_KEYFILE_PATH_SUFFIX_NMMETA)
          \<and> length b - sl = 36 \<and> nm_uuid_is_normalized e (take 36 b))" (is "?L \<longleftrightarrow> ?R")
  proof
    assume ?L then show ?R by (auto simp: sl_def NM_KEYFILE_PATH_SUFFIX_NMMETA_def)
  next
    assume R: ?R
    have "take (length b - sl) b @ drop (length b - sl) b = b" by (rule append_take_drop_id)
    with R have "b = take 36 b @ NM_KEYFILE_PATH_SUFFIX_NMMETA" by metis
    moreover have "36 \<le> length b" using R by arith
    then have "length (take 36 b) = 36" by simp
    ultimately show ?L using R by blast
  qed
  have first: "nms_keyfile_nmmeta_check_filename e fn = Some r \<longleftrightarrow>
      (\<exists>u. after_last_slash fn = u @ NM_KEYFILE_PATH_SUFFIX_NMMETA \<and> length u = 36
           \<and> nm_uuid_is_normalized e u \<and> r = (after_last_slash fn, 36))"
    unfolding nms_keyfile_nmmeta_check_filename_def Let_def b_def[symmetric] sl_def[symmetric]
    using dec by auto
  define x where "x = after_last_slash (fn @ ''~'')"
  have x: "last x = CHR ''~''" "x \<noteq> []"
    by (simp_all add: x_def after_last_slash_def is_sep_def)
  have "drop (length x - length NM_KEYFILE_PATH_SUFFIX_NMMETA) x \<noteq> NM_KEYFILE_PATH_SUFFIX_NMMETA"
  proof
    assume eq: "drop (length x - length NM_KEYFILE_PATH_SUFFIX_NMMETA) x = NM_KEYFILE_PATH_SUFFIX_NMMETA"
    have "length x - length NM_KEYFILE_PATH_SUFFIX_NMMETA < length x"
      using x(2) by (cases x) (simp_all add: NM_KEYFILE_PATH_SUFFIX_NMMETA_def)
    then have "last (drop (length x - length NM_KEYFILE_PATH_SUFFIX_NMMETA) x) = last x"
      by (rule last_drop)
    with eq x(1) show False by (simp add: NM_KEYFILE_PATH_SUFFIX_NMMETA_def)
  qed
  then have second: "nms_keyfile_nmmeta_check_filename e (fn @ ''~'') = None"
    unfolding nms_keyfile_nmmeta_check_filename_def Let_def x_def[symmetric] by simp
  from first second show ?thesis by simp
qed

theorem nmmeta_check_filename_shape_witness:
  "nms_keyfile_nmmeta_check_filename example_env (example_uuid @ NM_KEYFILE_PATH_SUFFIX_NMMETA)
     = Some (example_uuid @ NM_KEYFILE_PATH_SUFFIX_NMMETA, 36)"
proof -
  have "after_last_slash (example_uuid @ NM_KEYFILE_PATH_SUFFIX_NMMETA)
          = example_uuid @ NM_KEYFILE_PATH_SUFFIX_NMMETA"
    by (simp add: after_last_slash_def example_uuid_def NM_KEYFILE_PATH_SUFFIX_NMMETA_def is_sep_def)
  moreover have "length example_uuid = 36" by (simp add: example_uuid_def)
  moreover have "nm_uuid_is_normalized example_env example_uuid"
    using example_uuid_normalized by (simp add: example_env_def)
  ultimately show ?thesis
    using nmmeta_check_filename_shape[of example_env
        "example_uuid @ NM_KEYFILE_PATH_SUFFIX_NMMETA"
        "(example_uuid @ NM_KEYFILE_PATH_SUFFIX_NMMETA, 36)"]
    by simp
qed

text \<open>The claim as the spec words it expects the temporary name of a record to be accepted;
  it is refused.\<close>

theorem nmmeta_check_filename_tilde_counterexample:
  "nm_uuid_is_normalized example_env example_uuid \<and> length example_uuid = 36
   \<and> nms_keyfile_nmmeta_check_filename example_env
        (example_uuid @ NM_KEYFILE_PATH_SUFFIX_NMMETA @ ''~'') = None"
  by (simp add: nms_keyfile_nmmeta_check_filename_def Let_def NM_KEYFILE_PATH_SUFFIX_NMMETA_def
      after_last_slash_def is_sep_def example_uuid_def example_env_def
      example_uuid_is_normalized_def is_lower_hex_def)

subsection \<open>Removing a sidecar record\<close>



subsection \<open>The data items of the VPN setting\<close>

lemma vpn_remove_data:
  "snd (nm_setting_vpn_remove_data_item s key) =
     (if key_ok key \<and> nm_g_hash_table_lookup (data s) (the key) \<noteq> None
      then s\<lparr>data := Some ((the (data s))((the key) := None)), notified := PROP_DATA # notified s\<rparr>
      else s)"
  by (simp add: nm_setting_vpn_remove_data_item_def nm_g_hash_table_lookup_def split: option.splits)

text \<open>
  Claim C10. \<^verbatim>\<open>nm_setting_vpn_add_data_item\<close> with \<^verbatim>\<open>item = NULL\<close> is
  \<^verbatim>\<open>nm_setting_vpn_remove_data_item\<close>: the setting it leaves is the one the removal leaves
  (the same table, the same notifications), the key has no data item afterwards, and
  every other key keeps its item. This holds for every key, the empty and the NULL key
  included, where neither function changes anything.
\<close>

theorem vpn_add_null:
  "nm_setting_vpn_add_data_item s key None = snd (nm_setting_vpn_remove_data_item s key)
   \<and> nm_setting_vpn_get_data_item (nm_setting_vpn_add_data_item s key None) key = None
   \<and> (\<forall>k. k \<noteq> key \<longrightarrow> nm_setting_vpn_get_data_item (nm_setting_vpn_add_data_item s key None) k
                          = nm_setting_vpn_get_data_item s k)"
proof -
  have a: "nm_setting_vpn_add_data_item s key None = snd (nm_setting_vpn_remove_data_item s key)"
    by (simp add: nm_setting_vpn_add_data_item_def)
  have b: "nm_setting_vpn_get_data_item (snd (nm_setting_vpn_remove_data_item s key)) key = None"
    unfolding vpn_remove_data
    by (cases "data s") (simp_all add: nm_setting_vpn_get_data_item_def nm_g_hash_table_lookup_def)
  have c: "k \<noteq> key \<Longrightarrow> nm_setting_vpn_get_data_item (snd (nm_setting_vpn_remove_data_item s key)) k
                          = nm_setting_vpn_get_data_item s k" for k
    unfolding vpn_remove_data
    by (cases "data s"; cases key; cases k)
       (simp_all add: nm_setting_vpn_get_data_item_def nm_g_hash_table_lookup_def key_ok_def)
  from a b c show ?thesis by simp
qed

theorem vpn_add_null_witness:
  "nm_setting_vpn_get_data_item example_vpn (Some ''remote'') = Some ''vpn.example.org''
   \<and> nm_setting_vpn_get_data_item (nm_setting_vpn_add_data_item example_vpn (Some ''remote'') None)
       (Some ''remote'') = None
   \<and> fst (nm_setting_vpn_remove_data_item example_vpn (Some ''remote''))"
  using vpn_add_null[of example_vpn "Some ''remote''"]
  by (simp add: example_vpn_def nm_setting_vpn_get_data_item_def nm_g_hash_table_lookup_def key_ok_def
        nm_setting_vpn_remove_data_item_def)

subsection \<open>The interface-name fixup\<close>

lemma follow_update_bytes:
  assumes "nd_data nd = Bytes b"
  shows "follow n (fs(q := Some nd)) p = Some nd \<or> follow n (fs(q := Some nd)) p = follow n fs p"
proof (induction n arbitrary: p)
  case 0
  then show ?case by simp
next
  case (Suc n)
  show ?case
  proof (cases "p = q")
    case True
    then show ?thesis using assms by simp
  next
    case False
    show ?thesis
    proof (cases "fs p")
      case None
      then show ?thesis using False by simp
    next
      case (Some m)
      then show ?thesis using False Suc.IH by (cases "nd_data m") simp_all
    qed
  qed
qed

lemma follow_bytes:
  "0 < n \<Longrightarrow> fs p = Some nd \<Longrightarrow> nd_data nd = Bytes b \<Longrightarrow> follow n fs p = Some nd"
  by (cases n) simp_all

lemma read_file_bytes:
  "fs p = Some nd \<Longrightarrow> nd_data nd = Bytes b \<Longrightarrow> read_file fs p = Some b"
  by (simp add: read_file_def follow_bytes[of 40])

lemma read_file_update_bytes:
  assumes "nd_data nd = Bytes b"
  shows "read_file (fs(q := Some nd)) p = Some b \<or> read_file (fs(q := Some nd)) p = read_file fs p"
  using follow_update_bytes[OF assms, of 40 fs q p] assms
  by (auto simp: read_file_def)

lemma follow_Some_dom: "follow n fs p = Some nd \<Longrightarrow> fs p \<noteq> None"
  by (cases n) (auto split: option.splits)

lemma autogenerated_in_dom:
  assumes "has_autogenerated_name e fs p"
  shows "p \<in> dom fs"
proof -
  have "g_key_file_load_from_file e fs p \<noteq> None"
    using assms
    by (auto simp: has_autogenerated_name_def loaded_keyfile_def autogenerated_name_def g_key_file_get_string_def
        g_key_file_new_def split: option.splits)
  then have "read_file fs p \<noteq> None"
    by (auto simp: g_key_file_load_from_file_def split: option.splits)
  then obtain nd where "follow 40 fs p = Some nd"
    by (auto simp: read_file_def split: option.splits)
  then show ?thesis using follow_Some_dom by blast
qed

lemma fix_loop_skip:
  "\<not> has_autogenerated_name e fs p \<Longrightarrow> fix_loop e (p # ps) fs = fix_loop e ps fs"
  by (simp add: has_autogenerated_name_def Let_def)

lemma fix_loop_fail:
  "has_autogenerated_name e fs p \<Longrightarrow> sys_fault e SysKeyFileSave p = Some err \<Longrightarrow>
     fix_loop e (p # ps) fs = (False, fs)"
  by (simp add: has_autogenerated_name_def Let_def)

lemma fix_loop_save:
  "has_autogenerated_name e fs p \<Longrightarrow> sys_fault e SysKeyFileSave p = None \<Longrightarrow>
     fix_loop e (p # ps) fs =
       fix_loop e ps (fs(p := Some (saved_keyfile e
          (g_key_file_remove_key (loaded_keyfile e fs p) ''connection'' ''interface-name''))))"
  by (simp add: has_autogenerated_name_def Let_def)

lemma fix_loop_dom: "dom (snd (fix_loop e ps fs)) = dom fs"
proof (induction ps arbitrary: fs)
  case Nil
  then show ?case by simp
next
  case (Cons p ps)
  show ?case
  proof (cases "has_autogenerated_name e fs p")
    case False
    show ?thesis by (simp only: fix_loop_skip[OF False] Cons.IH)
  next
    case True
    then have d: "p \<in> dom fs" by (rule autogenerated_in_dom)
    show ?thesis
    proof (cases "sys_fault e SysKeyFileSave p")
      case None
      have "dom (snd (fix_loop e (p # ps) fs)) = dom (fs(p := Some (saved_keyfile e
          (g_key_file_remove_key (loaded_keyfile e fs p) ''connection'' ''interface-name''))))"
        by (simp only: fix_loop_save[OF True None] Cons.IH)
      also have "\<dots> = dom fs" using d by auto
      finally show ?thesis .
    next
      case (Some err)
      then show ?thesis by (simp only: fix_loop_fail[OF True Some] snd_conv)
    qed
  qed
qed

lemma good_after_save:
  assumes "removed_key_stays_removed e" 
  shows "\<not> has_autogenerated_name e (fs(q := Some (saved_keyfile e (g_key_file_remove_key kf ''connection'' ''interface-name'')))) q"
proof -
  let ?nd = "saved_keyfile e (g_key_file_remove_key kf ''connection'' ''interface-name'')"
  have "read_file (fs(q := Some ?nd)) q = Some (g_key_file_to_data e (g_key_file_remove_key kf ''connection'' ''interface-name''))"
    by (rule read_file_bytes[of _ _ ?nd]) (simp_all add: saved_keyfile_def)
  then show ?thesis
    using assms[unfolded removed_key_stays_removed_def, rule_format, of kf]
    by (auto simp: has_autogenerated_name_def loaded_keyfile_def g_key_file_load_from_file_def autogenerated_name_def
        g_key_file_get_string_def g_key_file_new_def split: option.splits)
qed

lemma good_preserved_save:
  assumes "removed_key_stays_removed e" "\<not> has_autogenerated_name e fs p"
  shows "\<not> has_autogenerated_name e (fs(q := Some (saved_keyfile e (g_key_file_remove_key kf ''connection'' ''interface-name'')))) p"
proof -
  let ?b = "g_key_file_to_data e (g_key_file_remove_key kf ''connection'' ''interface-name'')"
  let ?nd = "saved_keyfile e (g_key_file_remove_key kf ''connection'' ''interface-name'')"
  have d: "nd_data ?nd = Bytes ?b" by (simp add: saved_keyfile_def)
  from read_file_update_bytes[OF d, of fs q p]
  show ?thesis
  proof
    assume "read_file (fs(q := Some ?nd)) p = Some ?b"
    then show ?thesis
      using assms(1)[unfolded removed_key_stays_removed_def, rule_format, of kf]
      by (auto simp: has_autogenerated_name_def loaded_keyfile_def g_key_file_load_from_file_def autogenerated_name_def
        g_key_file_get_string_def g_key_file_new_def split: option.splits)
  next
    assume "read_file (fs(q := Some ?nd)) p = read_file fs p"
    then show ?thesis using assms(2)
      by (simp add: has_autogenerated_name_def loaded_keyfile_def g_key_file_load_from_file_def)
  qed
qed

lemma fix_loop_good:
  assumes "removed_key_stays_removed e"
  shows "\<not> has_autogenerated_name e fs q \<Longrightarrow> \<not> has_autogenerated_name e (snd (fix_loop e ps fs)) q"
proof (induction ps arbitrary: fs)
  case Nil
  then show ?case by simp
next
  case (Cons p ps)
  show ?case
  proof (cases "has_autogenerated_name e fs p")
    case False
    show ?thesis unfolding fix_loop_skip[OF False] using Cons.prems by (rule Cons.IH)
  next
    case True
    show ?thesis
    proof (cases "sys_fault e SysKeyFileSave p")
      case None
      have "\<not> has_autogenerated_name e (fs(p := Some (saved_keyfile e (g_key_file_remove_key (loaded_keyfile e fs p) ''connection'' ''interface-name'')))) q"
        using assms Cons.prems by (rule good_preserved_save)
      then show ?thesis unfolding fix_loop_save[OF True None] by (rule Cons.IH)
    next
      case (Some err)
      show ?thesis unfolding fix_loop_fail[OF True Some] snd_conv by (rule Cons.prems)
    qed
  qed
qed

lemma fix_loop_idem:
  assumes "removed_key_stays_removed e"
  shows "fix_loop e ps (snd (fix_loop e ps fs)) = fix_loop e ps fs"
proof (induction ps arbitrary: fs)
  case Nil
  then show ?case by simp
next
  case (Cons p ps)
  show ?case
  proof (cases "has_autogenerated_name e fs p")
    case False
    have r: "fix_loop e (p # ps) fs = fix_loop e ps fs" using False by (rule fix_loop_skip)
    have "\<not> has_autogenerated_name e (snd (fix_loop e ps fs)) p" using assms False by (rule fix_loop_good)
    then have "fix_loop e (p # ps) (snd (fix_loop e ps fs)) = fix_loop e ps (snd (fix_loop e ps fs))"
      by (rule fix_loop_skip)
    also have "\<dots> = fix_loop e ps fs" by (rule Cons.IH)
    finally show ?thesis by (simp only: r)
  next
    case True
    show ?thesis
    proof (cases "sys_fault e SysKeyFileSave p")
      case (Some err)
      then show ?thesis by (simp only: fix_loop_fail[OF True Some] snd_conv)
    next
      case None
      let ?fs1 = "fs(p := Some (saved_keyfile e (g_key_file_remove_key (loaded_keyfile e fs p) ''connection'' ''interface-name'')))"
      have r: "fix_loop e (p # ps) fs = fix_loop e ps ?fs1"
        using True None by (rule fix_loop_save)
      have "\<not> has_autogenerated_name e ?fs1 p" using assms by (rule good_after_save)
      then have "\<not> has_autogenerated_name e (snd (fix_loop e ps ?fs1)) p" using assms fix_loop_good by blast
      then have "fix_loop e (p # ps) (snd (fix_loop e ps ?fs1)) = fix_loop e ps (snd (fix_loop e ps ?fs1))"
        by (rule fix_loop_skip)
      also have "\<dots> = fix_loop e ps ?fs1" by (rule Cons.IH)
      finally show ?thesis by (simp only: r)
    qed
  qed
qed

text \<open>
  Claim C9. Running \<^verbatim>\<open>_fix_netplan_interface_name\<close> on the state a first run left returns
  what the first run returned and leaves every file as it is, for every state of the file
  system, every result of \<^verbatim>\<open>glob\<close> and every file that cannot be saved. The pass rewrites
  a file only when it reads an interface name that starts with \<^verbatim>\<open>NM-\<close> and is longer than
  15 characters, and the rewrite removes that key; the one thing asked of glib is that a
  removed key is not read back from the text it wrote.
\<close>

theorem fix_netplan_interface_name_idempotent:
  assumes "removed_key_stays_removed e"
  shows "fix_netplan_interface_name e root (snd (fix_netplan_interface_name e root fs))
         = fix_netplan_interface_name e root fs"
proof -
  define pat where "pat = g_build_path [(case root of None \<Rightarrow> ''/'' | Some r \<Rightarrow> r), ''run'',
                               ''NetworkManager'', ''system-connections''] @ ''/'' @ ''*.nmconnection''"
  obtain rc pathv where g: "glob e pat (dom fs) = (rc, pathv)"
    by (cases "glob e pat (dom fs)") auto
  have unf: "fix_netplan_interface_name e root f =
      (case glob e pat (dom f) of (rc, pathv) \<Rightarrow>
         if rc \<noteq> 0 \<and> rc \<noteq> GLOB_NOMATCH e then (False, f)
         else fix_loop e (if rc = 0 then pathv else []) f)" for f
    by (simp add: fix_netplan_interface_name_def Let_def pat_def)
  show ?thesis
  proof (cases "rc \<noteq> 0 \<and> rc \<noteq> GLOB_NOMATCH e")
    case True
    then show ?thesis using g by (simp add: unf)
  next
    case False
    let ?ps = "if rc = 0 then pathv else []"
    have r: "fix_netplan_interface_name e root fs = fix_loop e ?ps fs"
      using False g by (simp add: unf)
    have d: "dom (snd (fix_loop e ?ps fs)) = dom fs" by (rule fix_loop_dom)
    have "fix_netplan_interface_name e root (snd (fix_loop e ?ps fs)) = fix_loop e ?ps (snd (fix_loop e ?ps fs))"
      using False g unfolding unf d by simp
    then show ?thesis unfolding r using fix_loop_idem[OF assms] by simp
  qed
qed

theorem fix_netplan_interface_name_idempotent_witness:
  "removed_key_stays_removed example_env
   \<and> fix_netplan_interface_name example_env None example_run_fs
       = (True, example_run_fs(example_run_file := Some (example_file [])))
   \<and> fix_netplan_interface_name example_env None
        (example_run_fs(example_run_file := Some (example_file [])))
       = (True, example_run_fs(example_run_file := Some (example_file [])))"
proof -
  have h: "removed_key_stays_removed example_env"
  by (simp add: removed_key_stays_removed_def example_env_def example_to_data_def
      example_load_from_data_def g_key_file_remove_key_def g_key_file_get_string_def g_key_file_new_def)
  have r: "fix_netplan_interface_name example_env None example_run_fs
   = (True, example_run_fs(example_run_file := Some (example_file [])))"
  by (simp add: fix_netplan_interface_name_def Let_def example_env_def example_run_fs_def
      loaded_keyfile_def g_key_file_load_from_file_def read_file_def follow_bytes[of 40]
      example_file_def example_load_from_data_def example_to_data_def autogenerated_name_def
      g_key_file_get_string_def g_key_file_set_string_def g_key_file_new_def g_key_file_remove_key_def
      g_str_has_prefix_def saved_keyfile_def example_run_file_def)
  from fix_netplan_interface_name_idempotent[OF h, of None example_run_fs] h r
  show ?thesis by simp
qed

subsection \<open>The file name loop\<close>

text \<open>The loop is a search for the first candidate that is not rejected, over the rounds
  from -2 to 9999.\<close>

lemma candidate_rejected_spec:
  "candidate_rejected a (write_rename e a) fs c = spec_rejected e a fs c"
  by (auto simp: candidate_rejected_def spec_rejected_def)

lemma select_path_find:
  "select_path e a rn fs k =
     find (\<lambda>c. \<not> candidate_rejected a rn fs c) (List.map_filter (path_candidate e a rn) [k..9999])"
proof (induction e a rn fs k rule: select_path.induct)
  case (1 e a rn fs i)
  show ?case
  proof (cases "i < 10000")
    case False
    then have "[i..9999] = []" by simp
    then show ?thesis using False by (subst select_path.simps) (simp add: List.map_filter_simps)
  next
    case True
    then have u: "[i..9999] = i # [i + 1..9999]" by (simp add: upto_rec1)
    show ?thesis
    proof (cases "path_candidate e a rn i")
      case None
      then show ?thesis using True "1.IH"(1)[OF True None]
        by (subst select_path.simps) (simp add: u List.map_filter_simps)
    next
      case (Some c)
      show ?thesis
      proof (cases "candidate_rejected a rn fs c")
        case rej: True
        then show ?thesis using True Some "1.IH"(2)[OF True Some rej]
          by (subst select_path.simps) (simp add: u List.map_filter_simps)
      next
        case acc: False
        then show ?thesis using True Some
          by (subst select_path.simps) (simp add: u List.map_filter_simps)
      qed
    qed
  qed
qed

lemma map_filter_Some: "(\<And>x. x \<in> set xs \<Longrightarrow> f x = Some (g x)) \<Longrightarrow> List.map_filter f xs = map g xs"
  by (induction xs) (simp_all add: List.map_filter_simps)

lemma candidates_list:
  "List.map_filter (path_candidate e a (write_rename e a)) [- 2..9999] = spec_candidates e a"
proof -
  have "[- 2..9999] = - 2 # [- 2 + 1..9999]" by (rule upto_rec1) simp
  moreover have "[- 1..9999] = - 1 # [- 1 + 1..9999]" by (rule upto_rec1) simp
  moreover have "[0..9999] = 0 # [0 + 1..9999]" by (rule upto_rec1) simp
  ultimately have u: "[- 2..9999] = - 2 # - 1 # 0 # [1..9999]" by simp
  have t: "List.map_filter (path_candidate e a rn) [1..9999]
          = map (\<lambda>n. keyfile_dir a @ ''/'' @
                   nm_keyfile_utils_create_filename e
                     (conn_id (connection a) @ ''-'' @ conn_uuid (connection a) @ ''-''
                      @ decimal (nat n))
                     (with_extension a)) [1..9999]"
    for rn by (rule map_filter_Some) (simp add: path_candidate_def)
  show ?thesis
    unfolding u
    by (simp add: List.map_filter_simps t spec_candidates_def path_candidate_def split: option.splits)
qed

lemma select_path_spec:
  "select_path e a (write_rename e a) fs (- 2) = spec_allocate e a fs"
  unfolding select_path_find candidates_list spec_allocate_def
  by (simp add: candidate_rejected_spec)

lemma length_spec_candidates: "length (spec_candidates e a) \<le> 10002"
proof -
  have "length [1..9999::int] = 9999" by (simp only: length_upto)
  then show ?thesis by (simp add: spec_candidates_def split: option.splits)
qed

subsection \<open>The steps of the writer before the file is written\<close>



lemma set_contents_ok:
  assumes "nm_utils_file_set_contents e q c m fs = (None, fs')"
  shows "is_file fs' q" "\<And>p. p \<noteq> q \<Longrightarrow> fs' p = fs p"
  using assms
  by (auto simp: nm_utils_file_set_contents_def is_file_def split: option.splits)

lemma set_contents_fail:
  assumes "nm_utils_file_set_contents e q c m fs = (Some err, fs')"
  shows "fs' = fs"
  using assms
  by (auto simp: nm_utils_file_set_contents_def split: option.splits)








subsection \<open>Writing the file and setting its owner\<close>


lemma write_keyfile_chown_fails:
  assumes "write_prepare e a fs = (Inr (kf, buf, path, rr, rs), fs2)"
      and "sys_fault e SysSetContents path = None"
      and "sys_fault e SysChown path = Some errsv"
  shows "write_keyfile e a fs =
           (Inl (ErrChown path errsv),
            (fs2(path := Some \<lparr>nd_stat = \<lparr>st_mode = 0x8000 OR 0x180, st_uid = proc_uid e,
                                             st_gid = proc_gid e\<rparr>,
                                 nd_data = Bytes buf\<rparr>))(path := None))"
  using assms
  by (simp add: write_keyfile_def nm_utils_file_set_contents_def chown_def unlink_def)



subsection \<open>Failures of the write and the file the profile had before\<close>






text \<open>
  Claim C2. When the write has chosen its path and written the file, and \<^verbatim>\<open>chown\<close> of that
  file fails, \<^verbatim>\<open>_internal_write_connection\<close> returns the chown error and the file is not
  there afterwards; every other path is as it was before the file was written.
\<close>

theorem chown_failure_removes_file:
  assumes "write_prepare e a fs = (Inr (kf, buf, path, rr, rs), fs2)"
      and "sys_fault e SysSetContents path = None"
      and "sys_fault e SysChown path = Some errsv"
  shows "fst (internal_write_connection e a fs) = Inl (ErrChown path errsv)
         \<and> snd (internal_write_connection e a fs) path = None
         \<and> (\<forall>q. q \<noteq> path \<longrightarrow> snd (internal_write_connection e a fs) q = fs2 q)"
  using write_keyfile_chown_fails[OF assms]
  by (simp add: internal_write_connection_def)



subsection \<open>The writer on the example profile\<close>

lemma follow_None: "fs p = None \<Longrightarrow> follow n fs p = None"
  by (cases n) simp_all

lemma exists_None: "fs p = None \<Longrightarrow> \<not> g_file_test_exists fs p"
  by (simp add: g_file_test_exists_def follow_None)

lemma is_dir_None: "fs p = None \<Longrightarrow> \<not> g_file_test_is_dir fs p"
  by (simp add: g_file_test_is_dir_def follow_None)

lemma example_serialize:
  assumes "nm_keyfile_write_error e = (\<lambda>c. None)" "g_key_file_to_data e = example_to_data"
    "proc_uid e = 0" "proc_gid e = 0" "fs example_dir = None"
    "a = (example_args example_uuid True)\<lparr>existing_path := ep, force_rename := fr, allow_filename_cb := cb\<rparr>"
  shows "write_serialize e a fs =
     (Inr (g_key_file_set_boolean g_key_file_new ''nmmeta'' ''volatile'' True, []),
      fs(example_dir := Some example_dir_node))"
  using assms is_dir_None[of fs example_dir]
  by (simp add: write_serialize_def example_args_def example_connection_def g_str_has_prefix_def
      nm_keyfile_write_def Let_def example_dir_def g_mkdir_with_parents_def example_to_data_def
      g_key_file_set_boolean_def g_key_file_new_def example_dir_node_def)

lemma example_candidate:
  assumes "nm_keyfile_utils_create_filename e = nm_keyfile_utils_create_filename example_env"
    "a = (example_args example_uuid True)\<lparr>existing_path := ep, force_rename := fr, allow_filename_cb := cb\<rparr>"
  shows "path_candidate e a rn (- 1) = Some example_new_path"
  using assms
  by (simp add: path_candidate_def example_args_def example_connection_def example_env_def
      g_build_filename_def strip_leading_def strip_trailing_def is_sep_def Let_def example_new_path_def)

lemma example_select:
  assumes "nm_keyfile_utils_create_filename e = nm_keyfile_utils_create_filename example_env"
    "a = (example_args example_uuid True)\<lparr>existing_path := ep, force_rename := fr, allow_filename_cb := None\<rparr>"
    "ep = None \<or> rn" "ep \<noteq> Some example_new_path" "fs example_new_path = None"
  shows "select_path e a rn fs (- 2) = Some example_new_path"
proof -
  have c2: "path_candidate e a rn (- 2) = None"
    using assms(2,3) by (auto simp: path_candidate_def)
  have c1: "path_candidate e a rn (- 1) = Some example_new_path"
    using assms(1,2) by (rule example_candidate)
  have r: "\<not> candidate_rejected a rn fs example_new_path"
    using assms(2,4,5) exists_None[of fs example_new_path]
    by (simp add: candidate_rejected_def)
  have "select_path e a rn fs (- 2) = select_path e a rn fs (- 1)"
    by (subst select_path.simps) (simp add: c2)
  also have "\<dots> = Some example_new_path"
    by (subst select_path.simps) (simp add: c1 r)
  finally show ?thesis .
qed

lemma example_prepare:
  assumes "nm_keyfile_write_error e = (\<lambda>c. None)" "g_key_file_to_data e = example_to_data"
    "proc_uid e = 0" "proc_gid e = 0" "fs example_dir = None"
    "a = (example_args example_uuid True)\<lparr>existing_path := ep, force_rename := fr, allow_filename_cb := None\<rparr>"
    "nm_keyfile_utils_create_filename e = nm_keyfile_utils_create_filename example_env"
    "ep = None \<or> fr" "ep \<noteq> Some example_new_path" "fs example_new_path = None"
  shows "write_prepare e a fs =
     (Inr (g_key_file_set_boolean g_key_file_new ''nmmeta'' ''volatile'' True, [], example_new_path, None, False),
      fs(example_dir := Some example_dir_node))"
proof -
  have rn: "ep = None \<or> write_rename e a" using assms(6,8) by (auto simp: write_rename_def)
  have n: "(fs(example_dir := Some example_dir_node)) example_new_path = None"
    using assms(10) by (simp add: example_dir_def example_new_path_def)
  have w: "want_reread a = False" "want_reread_same a = False"
    using assms(6) by (simp_all add: example_args_def)
  show ?thesis
    unfolding write_prepare_def example_serialize[where fs=fs and e=e and a=a, OF assms(1-6)]
    by (simp add: example_select[where fs="fs(example_dir := Some example_dir_node)",
          OF assms(7) assms(6) rn assms(9) n] w)
qed

theorem chown_failure_removes_file_witness:
  "sys_fault example_chown_env SysSetContents example_new_path = None
   \<and> sys_fault example_chown_env SysChown example_new_path = Some 1
   \<and> fst (internal_write_connection example_chown_env (example_args example_uuid True) (\<lambda>p. None))
       = Inl (ErrChown example_new_path 1)
   \<and> snd (internal_write_connection example_chown_env (example_args example_uuid True) (\<lambda>p. None))
       example_new_path = None"
proof -
  have a: "example_args example_uuid True =
      (example_args example_uuid True)\<lparr>existing_path := None, force_rename := False, allow_filename_cb := None\<rparr>"
    by (simp add: example_args_def)
  have p: "write_prepare example_chown_env (example_args example_uuid True) (\<lambda>p. None) =
     (Inr (g_key_file_set_boolean g_key_file_new ''nmmeta'' ''volatile'' True, [], example_new_path, None, False),
      (\<lambda>p. None)(example_dir := Some example_dir_node))"
    by (rule example_prepare[where ep=None and fr=False])
       (simp_all add: example_chown_env_def example_env_def a[symmetric])
  have s: "sys_fault example_chown_env SysSetContents example_new_path = None"
    and c: "sys_fault example_chown_env SysChown example_new_path = Some 1"
    by (simp_all add: example_chown_env_def example_env_def)
  from chown_failure_removes_file[OF p s c] s c show ?thesis by simp
qed


text \<open>
  Claim C7. The search of the file name is a total function: it tries at most 10002
  candidates (the existing path, the plain name and 10000 names with the uuid, 9999 of
  them numbered) and ends. It finds nothing exactly when every candidate is rejected, and
  then \<^verbatim>\<open>_internal_write_connection\<close> returns the "could not find suitable keyfile file
  name" error, with the state that the steps before the search left.
\<close>

theorem filename_search_bounded:
  "length (spec_candidates e a) \<le> 10002
   \<and> (select_path e a (write_rename e a) fs2 (- 2) = None
        \<longleftrightarrow> (\<forall>c \<in> set (spec_candidates e a). spec_rejected e a fs2 c))
   \<and> (write_serialize e a fs = (Inr (kf, buf), fs2)
        \<and> (\<forall>c \<in> set (spec_candidates e a). spec_rejected e a fs2 c)
      \<longrightarrow> internal_write_connection e a fs =
            (Inl (ErrNoFilename
                    (g_build_filename (keyfile_dir a)
                       (nm_keyfile_utils_create_filename e (conn_id (connection a)) (with_extension a)))),
             fs2))"
proof -
  have n: "select_path e a (write_rename e a) fs2 (- 2) = None
        \<longleftrightarrow> (\<forall>c \<in> set (spec_candidates e a). spec_rejected e a fs2 c)"
    unfolding select_path_spec spec_allocate_def find_None_iff by blast
  have w: "internal_write_connection e a fs =
            (Inl (ErrNoFilename
                    (g_build_filename (keyfile_dir a)
                       (nm_keyfile_utils_create_filename e (conn_id (connection a)) (with_extension a)))),
             fs2)"
    if "write_serialize e a fs = (Inr (kf, buf), fs2)"
      and "\<forall>c \<in> set (spec_candidates e a). spec_rejected e a fs2 c"
  proof -
    have "select_path e a (write_rename e a) fs2 (- 2) = None" using that(2) n by simp
    then show ?thesis using that(1)
      by (simp add: internal_write_connection_def write_keyfile_def write_prepare_def)
  qed
  show ?thesis using length_spec_candidates n w by blast
qed

theorem filename_search_bounded_witness:
  "write_serialize example_env example_refuse_args (\<lambda>p. None) =
     (Inr (g_key_file_set_boolean g_key_file_new ''nmmeta'' ''volatile'' True, []),
      (\<lambda>p. None)(example_dir := Some example_dir_node))
   \<and> internal_write_connection example_env example_refuse_args (\<lambda>p. None) =
       (Inl (ErrNoFilename example_new_path), (\<lambda>p. None)(example_dir := Some example_dir_node))"
proof -
  have a: "example_refuse_args =
      (example_args example_uuid True)\<lparr>existing_path := None, force_rename := False,
         allow_filename_cb := Some (\<lambda>p. False)\<rparr>"
    by (simp add: example_refuse_args_def example_args_def)
  have s: "write_serialize example_env example_refuse_args (\<lambda>p. None) =
     (Inr (g_key_file_set_boolean g_key_file_new ''nmmeta'' ''volatile'' True, []),
      (\<lambda>p. None)(example_dir := Some example_dir_node))"
    by (rule example_serialize[where ep=None and fr=False and cb="Some (\<lambda>p. False)"])
       (simp_all add: example_env_def a)
  have r: "\<forall>c \<in> set (spec_candidates example_env example_refuse_args).
             spec_rejected example_env example_refuse_args ((\<lambda>p. None)(example_dir := Some example_dir_node)) c"
    by (simp add: spec_rejected_def example_refuse_args_def)
  have c: "g_build_filename (keyfile_dir example_refuse_args)
             (nm_keyfile_utils_create_filename example_env (conn_id (connection example_refuse_args))
                (with_extension example_refuse_args)) = example_new_path"
    using example_candidate[where e=example_env and a=example_refuse_args and rn=False, OF refl a]
    by (simp add: path_candidate_def)
  from filename_search_bounded[of example_env example_refuse_args
        "(\<lambda>p. None)(example_dir := Some example_dir_node)" "\<lambda>p. None"
        "g_key_file_set_boolean g_key_file_new ''nmmeta'' ''volatile'' True" "[]"] s r c
  show ?thesis by simp
qed

subsection \<open>Writes that keep their key file\<close>




subsection \<open>Evaluating the writer\<close>

lemma follow_40:
  "follow 40 fs p =
     (case fs p of
        None \<Rightarrow> None
      | Some nd \<Rightarrow>
          (case nd_data nd of
             Target t \<Rightarrow>
               follow 39 fs (if g_str_has_prefix t ''/'' then t
                            else g_build_filename (g_path_get_dirname p) t)
           | _ \<Rightarrow> Some nd))"
proof -
  have "(40::nat) = Suc 39" by simp
  then show ?thesis by (simp only: follow.simps)
qed

lemmas example_defs =
  example_env_def example_args_def example_connection_def example_uuid_def example_uuid2_def
  example_run_file_def example_file_def example_to_data_def example_load_from_data_def
  example_new_path_def example_new_path2_def example_dir_def example_dir_node_def
  example_untranslatable_env_def

lemmas writer_defs =
  internal_write_connection_def write_keyfile_def write_prepare_def write_serialize_def
  nm_keyfile_write_def g_mkdir_with_parents_def g_file_test_is_dir_def g_file_test_exists_def
  select_path.simps[of _ _ _ _ "- 2"] select_path.simps[of _ _ _ _ "- 1"]
  select_path.simps[of _ _ _ _ 0]
  path_candidate_def candidate_rejected_def write_rename_def
  nm_utils_file_set_contents_def chown_def unlink_def
  netplan_write_def netplan_source_def netplan_lookup_def netplan_commit_def netplan_result_def
  fix_netplan_interface_name_def loaded_keyfile_def autogenerated_name_def
  g_key_file_load_from_file_def read_file_def follow_40
  g_key_file_get_string_def g_key_file_set_string_def g_key_file_set_boolean_def g_key_file_new_def
  g_build_filename_def g_build_path_def strip_leading_def strip_trailing_def is_sep_def
  g_str_has_prefix_def Let_def

subsection \<open>The file name allocator\<close>




subsection \<open>Failures of the projection into netplan\<close>

text \<open>When libnetplan cannot parse the key file, or knows no definition for the profile,
  the writer returns its error at once, in the state that line 445 left.\<close>

lemma projection_failure_returns_early:
  assumes "write_keyfile e a fs = (Inr (kf, path, rr, rs), fs5)" and "\<not> is_volatile a"
      and "netplan_source e a kf path fs5 = ((netplan_id, ifname, kf_path), fs1)"
  shows "netplan_parser_load_keyfile e fs1 kf_path = None \<Longrightarrow>
           internal_write_connection e a fs = (Inl ErrYamlTranslation, fs1)"
    and "netplan_parser_load_keyfile e fs1 kf_path = Some netdefs \<Longrightarrow>
         netplan_lookup netdefs netplan_id ifname = None \<Longrightarrow>
           internal_write_connection e a fs = (Inl (ErrNetdefNotFound netplan_id), fs1)"
  using assms by (simp_all add: internal_write_connection_def netplan_write_def)

text \<open>
  Claim C3, at an input where the code departs from it. A profile that is not volatile
  is written into an empty directory and libnetplan rejects the key file: the write
  returns the translation error, and the key file it wrote is still there. (The chown
  failure and the generation failure do remove it.)
\<close>

theorem translation_failure_leaves_keyfile:
  "fst (internal_write_connection example_untranslatable_env (example_args example_uuid False)
          (\<lambda>p. None)) = Inl ErrYamlTranslation
   \<and> is_file (snd (internal_write_connection example_untranslatable_env
                     (example_args example_uuid False) (\<lambda>p. None))) example_new_path"
  by (simp add: writer_defs example_defs is_file_def)

end
